theory Spec2Isabelle
  imports Main "HOL-Library.Sublist"
begin

section \<open>Strings\<close>

text \<open>
  Strings are byte lists: a JavaScript string stands as its UTF-8 bytes, so that an
  ASCII character is one byte below 128 and every other character is a run of bytes
  from 128 on. Slashes, backslashes, prefixes and splitting at a slash read the same on
  the bytes as on the characters.
\<close>

definition lowerChar :: "char \<Rightarrow> char" where
  "lowerChar c =
     (case map_of (zip ''ABCDEFGHIJKLMNOPQRSTUVWXYZ'' ''abcdefghijklmnopqrstuvwxyz'') c of
        None \<Rightarrow> c
      | Some d \<Rightarrow> d)"

definition isAsciiChar :: "char \<Rightarrow> bool" where
  "isAsciiChar c \<longleftrightarrow> \<not> digit7 c"

text \<open>
  \<open>String.prototype.toLowerCase\<close>. On a string of ASCII characters it turns \<open>A\<close> to
  \<open>Z\<close> into \<open>a\<close> to \<open>z\<close> and keeps the rest. On any other string it follows the
  case tables of Unicode, which are not among the sources: that part is the parameter
  \<open>lc\<close>, the lower-casing of the strings that are not ASCII, and every function that
  lower-cases takes it as its first argument. Nothing is assumed of \<open>lc\<close>.
\<close>

type_synonym caseFold = "string \<Rightarrow> string"

definition toLowerCase :: "caseFold \<Rightarrow> string \<Rightarrow> string" where
  "toLowerCase lc s = (if list_all isAsciiChar s then map lowerChar s else lc s)"

definition isAsciiLetter :: "char \<Rightarrow> bool" where
  "isAsciiLetter c \<longleftrightarrow>
     c \<in> set ''ABCDEFGHIJKLMNOPQRSTUVWXYZabcdefghijklmnopqrstuvwxyz''"

definition bslash :: char where
  "bslash = CHR 0x5C"

definition dquote :: char where
  "dquote = CHR 0x22"

text \<open>\<open>s.startsWith(p)\<close>.\<close>

definition startsWith :: "string \<Rightarrow> string \<Rightarrow> bool" where
  "startsWith s p \<longleftrightarrow> prefix p s"

text \<open>\<open>s.split(c)\<close> for a one-character separator: the empty string gives one empty piece.\<close>

fun splitOn :: "char \<Rightarrow> string \<Rightarrow> string list" where
  "splitOn c [] = [[]]"
| "splitOn c (x # xs) =
     (if x = c then [] # splitOn c xs
      else (case splitOn c xs of
              [] \<Rightarrow> [[x]]
            | w # ws \<Rightarrow> (x # w) # ws))"

section \<open>Data model (types.ts)\<close>

record ResourceEntry =
  absolutePath :: string
  mimeType :: string

text \<open>
  \<open>SkillResourceMap\<close> is a JavaScript \<open>Map\<close>: its entries in insertion order.
  \<open>get\<close> is \<open>map_of\<close>, \<open>size === 0\<close> is the empty list.
\<close>

type_synonym SkillResourceMap = "(string \<times> ResourceEntry) list"

record Skill =
  name :: string
  fullPath :: string
  toolName :: string
  description :: string
  allowedTools :: "string list option"
  metadata :: "(string \<times> string) list option"
  license :: "string option"
  content :: string
  path :: string
  scripts :: SkillResourceMap
  references :: SkillResourceMap
  assets :: SkillResourceMap
  resources :: "SkillResourceMap option"

section \<open>Resource resolver (createSkillResourceResolver)\<close>

definition toPosixPath :: "string \<Rightarrow> string" where
  "toPosixPath v = map (\<lambda>c. if c = bslash then CHR ''/'' else c) v"

text \<open>Backslashes become slashes; leading and trailing runs of slashes are removed.\<close>

definition normalizeResourcePath :: "string \<Rightarrow> string" where
  "normalizeResourcePath v =
     rev (dropWhile (\<lambda>c. c = CHR ''/'') (rev (dropWhile (\<lambda>c. c = CHR ''/'') (toPosixPath v))))"

text \<open>The test \<open>/^[A-Za-z]:[\\/]/\<close> on the raw value.\<close>

fun driveLetterPrefix :: "string \<Rightarrow> bool" where
  "driveLetterPrefix (d # c # s # _) \<longleftrightarrow>
     isAsciiLetter d \<and> c = CHR '':'' \<and> (s = bslash \<or> s = CHR ''/'')"
| "driveLetterPrefix _ \<longleftrightarrow> False"

definition isUnsafeResourcePath :: "string \<Rightarrow> bool" where
  "isUnsafeResourcePath v =
     (let normalized = normalizeResourcePath v in
      if normalized = [] then True
      else if startsWith v ''/'' \<or> driveLetterPrefix v then True
      else ''..'' \<in> set (filter (\<lambda>s. s \<noteq> []) (splitOn (CHR ''/'') normalized)))"

text \<open>\<open>resourceMap?.get(k)\<close>: an absent map has no entry.\<close>

definition mapGet :: "SkillResourceMap option \<Rightarrow> string \<Rightarrow> ResourceEntry option" where
  "mapGet resourceMap k = (case resourceMap of None \<Rightarrow> None | Some m \<Rightarrow> map_of m k)"

text \<open>The first loop of \<open>findInMap\<close>: every candidate probed with its exact case.\<close>

fun findExact :: "SkillResourceMap option \<Rightarrow> string list \<Rightarrow> ResourceEntry option" where
  "findExact resourceMap [] = None"
| "findExact resourceMap (candidate # candidates) =
     (let normalized = normalizeResourcePath candidate in
      if normalized = [] then findExact resourceMap candidates
      else (case mapGet resourceMap normalized of
              Some exact \<Rightarrow> Some exact
            | None \<Rightarrow> findExact resourceMap candidates))"

text \<open>
  The map \<open>lowered\<close>: every entry stored again under its lower-cased key, in the map's
  order, so that a later entry replaces an earlier one with the same folded key.
\<close>

fun lowerEntries ::
  "caseFold \<Rightarrow> SkillResourceMap \<Rightarrow> (string \<rightharpoonup> ResourceEntry) \<Rightarrow> (string \<rightharpoonup> ResourceEntry)" where
  "lowerEntries lc [] lowered = lowered"
| "lowerEntries lc ((key, v) # rest) lowered = lowerEntries lc rest (lowered(toLowerCase lc key \<mapsto> v))"

definition loweredMap :: "caseFold \<Rightarrow> SkillResourceMap option \<Rightarrow> (string \<rightharpoonup> ResourceEntry)" where
  "loweredMap lc resourceMap =
     lowerEntries lc (case resourceMap of None \<Rightarrow> [] | Some m \<Rightarrow> m) Map.empty"

text \<open>The second loop of \<open>findInMap\<close>: every candidate probed lower-cased in \<open>lowered\<close>.\<close>

fun findLowered :: "caseFold \<Rightarrow> (string \<rightharpoonup> ResourceEntry) \<Rightarrow> string list \<Rightarrow> ResourceEntry option" where
  "findLowered lc lowered [] = None"
| "findLowered lc lowered (candidate # candidates) =
     (let normalized = toLowerCase lc (normalizeResourcePath candidate) in
      if normalized = [] then findLowered lc lowered candidates
      else (case lowered normalized of
              Some match \<Rightarrow> Some match
            | None \<Rightarrow> findLowered lc lowered candidates))"

definition findInMap :: "caseFold \<Rightarrow> SkillResourceMap option \<Rightarrow> string list \<Rightarrow> ResourceEntry option" where
  "findInMap lc resourceMap candidates =
     (case findExact resourceMap candidates of
        Some exact \<Rightarrow> Some exact
      | None \<Rightarrow> findLowered lc (loweredMap lc resourceMap) candidates)"

definition legacyCandidates :: "caseFold \<Rightarrow> string \<Rightarrow> string \<Rightarrow> string list" where
  "legacyCandidates lc pfx relativePath =
     (let normalized = normalizeResourcePath relativePath in
      if normalized = [] then []
      else if startsWith (toLowerCase lc normalized) (toLowerCase lc pfx @ ''/'') then [normalized]
      else [normalized, pfx @ ''/'' @ normalized])"

definition resolveLegacyResource :: "caseFold \<Rightarrow> Skill \<Rightarrow> string \<Rightarrow> string \<Rightarrow> ResourceEntry option" where
  "resolveLegacyResource lc skill ty relativePath =
     (let loweredType = toLowerCase lc ty in
      if loweredType = ''script'' \<or> loweredType = ''scripts'' then
        findInMap lc (Some (scripts skill)) (legacyCandidates lc ''scripts'' relativePath)
      else if loweredType = ''asset'' \<or> loweredType = ''assets'' then
        findInMap lc (Some (assets skill)) (legacyCandidates lc ''assets'' relativePath)
      else if loweredType = ''reference'' \<or> loweredType = ''references'' then
        findInMap lc (Some (references skill)) (legacyCandidates lc ''references'' relativePath)
      else None)"

definition resolveUnifiedResource :: "caseFold \<Rightarrow> Skill \<Rightarrow> string \<Rightarrow> string \<Rightarrow> ResourceEntry option" where
  "resolveUnifiedResource lc skill ty relativePath =
     (let normalizedType = normalizeResourcePath ty;
          normalizedRelative = normalizeResourcePath relativePath
      in
      if resources skill = None \<or> resources skill = Some [] then None
      else
        let loweredType = toLowerCase lc normalizedType in
        if loweredType = ''workflow'' \<or> loweredType = ''workflows'' then
          findInMap lc (resources skill)
            [normalizedRelative,
             if normalizedRelative \<noteq> [] then ''Workflows/'' @ normalizedRelative
             else ''Workflows'']
        else if loweredType = ''tool'' \<or> loweredType = ''tools'' then
          findInMap lc (resources skill)
            [normalizedRelative,
             if normalizedRelative \<noteq> [] then ''Tools/'' @ normalizedRelative else ''Tools'']
        else if loweredType = ''resource'' \<or> loweredType = ''resources'' \<or> loweredType = []
                \<or> loweredType = ''doc'' \<or> loweredType = ''docs'' then
          findInMap lc (resources skill)
            ([normalizedRelative]
             @ (if \<not> startsWith (toLowerCase lc normalizedRelative) ''workflows/''
                then [''Workflows/'' @ normalizedRelative] else [])
             @ (if \<not> startsWith (toLowerCase lc normalizedRelative) ''tools/''
                then [''Tools/'' @ normalizedRelative] else []))
        else
          findInMap lc (resources skill)
            [if normalizedRelative \<noteq> [] then normalizedType @ ''/'' @ normalizedRelative
             else normalizedType,
             normalizedRelative])"

text \<open>\<open>if (!resourceEntry) resourceEntry = ...\<close>: the first hit is kept.\<close>

fun orElse :: "'a option \<Rightarrow> 'a option \<Rightarrow> 'a option" where
  "orElse (Some x) _ = Some x"
| "orElse None y = y"

text \<open>
  The lookup strategies of the resolver in the order of the source: the typed legacy
  lookup, the unified lookup, the retry by path prefix (only under the generic types
  \<open>resource\<close>, \<open>resources\<close>, \<open>doc\<close>, \<open>docs\<close> and a non-empty relative path), and the
  last pass that takes the type for the path when no relative path was given.
\<close>

definition retryByPrefix :: "caseFold \<Rightarrow> Skill \<Rightarrow> string \<Rightarrow> ResourceEntry option" where
  "retryByPrefix lc skill rawRelativePath =
     (let normalizedRelative = normalizeResourcePath rawRelativePath;
          loweredRelative = toLowerCase lc normalizedRelative;
          inferred =
            (if startsWith loweredRelative ''references/'' then
               resolveLegacyResource lc skill ''reference'' normalizedRelative
             else if startsWith loweredRelative ''scripts/'' then
               resolveLegacyResource lc skill ''script'' normalizedRelative
             else if startsWith loweredRelative ''assets/'' then
               resolveLegacyResource lc skill ''asset'' normalizedRelative
             else None)
      in
      orElse inferred
        (orElse (resolveLegacyResource lc skill ''reference'' normalizedRelative)
          (orElse (resolveLegacyResource lc skill ''script'' normalizedRelative)
            (resolveLegacyResource lc skill ''asset'' normalizedRelative))))"

definition typeAsPath :: "caseFold \<Rightarrow> Skill \<Rightarrow> string \<Rightarrow> ResourceEntry option" where
  "typeAsPath lc skill rawType =
     orElse (resolveUnifiedResource lc skill ''resource'' rawType)
       (orElse (resolveLegacyResource lc skill ''reference'' rawType)
         (orElse (resolveLegacyResource lc skill ''script'' rawType)
           (resolveLegacyResource lc skill ''asset'' rawType)))"

definition findResourceEntry :: "caseFold \<Rightarrow> Skill \<Rightarrow> string \<Rightarrow> string \<Rightarrow> ResourceEntry option" where
  "findResourceEntry lc skill rawType rawRelativePath =
     (let first = orElse (resolveLegacyResource lc skill rawType rawRelativePath)
                    (resolveUnifiedResource lc skill rawType rawRelativePath);
          loweredRawType = toLowerCase lc rawType;
          second =
            (if first = None
                \<and> loweredRawType \<in> set [''resource'', ''resources'', ''doc'', ''docs'']
                \<and> rawRelativePath \<noteq> []
             then retryByPrefix lc skill rawRelativePath
             else first)
      in
      if second = None \<and> rawRelativePath = [] then typeAsPath lc skill rawType
      else second)"

text \<open>Every failure is a thrown \<open>Error\<close> with a message.\<close>

datatype error = Error (message: string)

record Args =
  skill_name :: string
  type :: string
  relative_path :: string

text \<open>
  The value returned on success; \<open>file_content\<close> and \<open>mime_type\<close> are the fields
  \<open>content\<close> and \<open>mimeType\<close> of the source.
\<close>

record Resolved =
  absolute_path :: string
  file_content :: string
  mime_type :: string

definition rawTypeOf :: "Args \<Rightarrow> string" where
  "rawTypeOf args = (if type args \<noteq> [] then type args else ''resource'')"

definition lookupPathOf :: "Args \<Rightarrow> string" where
  "lookupPathOf args =
     (if relative_path args \<noteq> [] then relative_path args else rawTypeOf args)"

definition notFoundMessage :: "Args \<Rightarrow> string" where
  "notFoundMessage args =
     ''Resource not found: Skill '' @ [dquote] @ skill_name args @ [dquote]
     @ '' does not have a '' @ rawTypeOf args @ '' at path '' @ [dquote]
     @ relative_path args @ [dquote]"

text \<open>
  The resolver. \<open>get\<close> is \<open>provider.controller.get\<close>; \<open>readSkillFile\<close> is the file
  reader, which gives the content or fails with a message. The first component of the
  result lists the paths handed to \<open>readSkillFile\<close>.
\<close>

definition resolver ::
  "caseFold \<Rightarrow> (string \<Rightarrow> Skill option) \<Rightarrow> (string \<Rightarrow> string + string) \<Rightarrow> Args
     \<Rightarrow> string list \<times> (error + Resolved)" where
  "resolver lc get readSkillFile args =
     (case get (skill_name args) of
        None \<Rightarrow> ([], Inl (Error (''Skill not found: '' @ skill_name args)))
      | Some skill \<Rightarrow>
          if isUnsafeResourcePath (lookupPathOf args) then
            ([], Inl (Error (notFoundMessage args)))
          else
            (case findResourceEntry lc skill (rawTypeOf args) (relative_path args) of
               None \<Rightarrow> ([], Inl (Error (notFoundMessage args)))
             | Some resourceEntry \<Rightarrow>
                 (case readSkillFile (absolutePath resourceEntry) of
                    Inr text \<Rightarrow>
                      ([absolutePath resourceEntry],
                       Inr \<lparr>absolute_path = absolutePath resourceEntry,
                            file_content = text,
                            mime_type = mimeType resourceEntry\<rparr>)
                  | Inl cause \<Rightarrow>
                      ([absolutePath resourceEntry],
                       Inl (Error (''Failed to read resource at ''
                                   @ absolutePath resourceEntry @ '': '' @ cause))))))"

text \<open>The entries a skill has indexed, over its four maps.\<close>

definition entriesOf :: "SkillResourceMap option \<Rightarrow> ResourceEntry list" where
  "entriesOf resourceMap = (case resourceMap of None \<Rightarrow> [] | Some m \<Rightarrow> map snd m)"

definition indexedEntries :: "Skill \<Rightarrow> ResourceEntry list" where
  "indexedEntries skill =
     map snd (scripts skill) @ map snd (references skill) @ map snd (assets skill)
     @ entriesOf (resources skill)"

subsection \<open>Fixtures\<close>

definition guideEntry :: ResourceEntry where
  "guideEntry =
     \<lparr>absolutePath = ''/skills/demo/references/guide.md'', mimeType = ''text/markdown''\<rparr>"

definition plainEntry :: ResourceEntry where
  "plainEntry = \<lparr>absolutePath = ''/skills/demo/resource'', mimeType = ''text/plain''\<rparr>"

definition demoSkill :: Skill where
  "demoSkill =
     \<lparr>name = ''demo'', fullPath = ''/skills/demo'', toolName = ''demo'',
      description = ''A sufficiently long demo description.'', allowedTools = None,
      metadata = None, license = None, content = ''# Skill'',
      path = ''/skills/demo/SKILL.md'', scripts = [],
      references = [(''references/guide.md'', guideEntry)], assets = [], resources = None\<rparr>"

text \<open>
  Most fixtures are ASCII throughout, so the lower-casing of other strings plays no
  part in them; where one is needed it is the identity.
\<close>

definition noUnicodeFold :: caseFold where
  "noUnicodeFold s = s"

text \<open>
  A lower-casing that knows one letter outside ASCII, as \<open>toLowerCase\<close> does: the
  capital E with acute accent (U+00C9, the bytes C3 89) becomes the small one (U+00E9,
  the bytes C3 A9), next to the ASCII letters.
\<close>

fun eAcuteFold :: caseFold where
  "eAcuteFold (a # b # s) =
     (if a = CHR 0xC3 \<and> b = CHR 0x89 then CHR 0xC3 # CHR 0xA9 # eAcuteFold s
      else lowerChar a # eAcuteFold (b # s))"
| "eAcuteFold [a] = [lowerChar a]"
| "eAcuteFold [] = []"

definition capitalEAcute :: string where
  "capitalEAcute = [CHR 0xC3, CHR 0x89]"

definition smallEAcute :: string where
  "smallEAcute = [CHR 0xC3, CHR 0xA9]"

text \<open>A registry that holds one skill under its tool name.\<close>

definition registryOf :: "Skill \<Rightarrow> string \<Rightarrow> Skill option" where
  "registryOf skill key = (if key = toolName skill then Some skill else None)"

section \<open>Skill parser: leading noise (SkillRegistry.ts)\<close>

text \<open>
  Modelled from the spec: \<open>stripLeadingHtmlCommentBlocks\<close> of SkillRegistry.ts, which is
  not among the sources (only its test is). The spec, section 4.2: a UTF-8 byte-order
  mark is stripped if present; then zero or more leading HTML comment blocks
  \<open><!-- ... -->\<close> are stripped, also when only blank lines separate them, until the
  first content that is neither comment nor blank; a comment block that is not at the
  very start is not stripped. A block ends at the first \<open>-->\<close> after its opening; a
  block that is never closed is left in place. Blank is a space, a tab, a line feed or a
  carriage return.
\<close>

definition bom :: string where
  "bom = [CHR 0xEF, CHR 0xBB, CHR 0xBF]"

definition isBlank :: "char \<Rightarrow> bool" where
  "isBlank c \<longleftrightarrow> c \<in> set [CHR '' '', CHR 0x09, CHR 0x0A, CHR 0x0D]"

fun findClose :: "string \<Rightarrow> string option" where
  "findClose [] = None"
| "findClose (c # cs) =
     (if prefix ''-->'' (c # cs) then Some (drop 3 (c # cs)) else findClose cs)"

function stripBlocks :: "string \<Rightarrow> string" where
  "stripBlocks s =
     (if startsWith s ''<!--'' then
        (case findClose (drop 4 s) of
           None \<Rightarrow> s
         | Some rest \<Rightarrow> stripBlocks (dropWhile isBlank rest))
      else s)"
  by pat_completeness auto
termination
proof (relation "measure length")
  show "wf (measure length)" by simp
next
  fix s rest
  assume "startsWith s ''<!--''" and close: "findClose (drop 4 s) = Some rest"
  have shorter: "findClose t = Some r \<Longrightarrow> length r < length t" for t r
    by (induction t) (auto split: if_splits)
  have "length (dropWhile isBlank rest) \<le> length rest"
    by (rule length_dropWhile_le)
  also from shorter [OF close] have "length rest < length s" by simp
  finally show "(dropWhile isBlank rest, s) \<in> measure length" by simp
qed

declare stripBlocks.simps [simp del]

text \<open>
  Modelled from the spec: \<open>stripLeadingHtmlCommentBlocks\<close> (its file SkillRegistry.ts is
  missing): the byte-order mark goes first, then the comment blocks at the very start.
\<close>

definition stripLeadingHtmlCommentBlocks :: "string \<Rightarrow> string" where
  "stripLeadingHtmlCommentBlocks rawText =
     stripBlocks (if startsWith rawText bom then drop 3 rawText else rawText)"

text \<open>
  A comment block is an opening \<open><!--\<close> whose first closing \<open>-->\<close> ends the block.
  Leading noise is a sequence of comment blocks, each followed by blanks.
\<close>

definition isCommentBlock :: "string \<Rightarrow> bool" where
  "isCommentBlock c \<longleftrightarrow> startsWith c ''<!--'' \<and> findClose (drop 4 c) = Some []"

fun noiseOf :: "(string \<times> string) list \<Rightarrow> string" where
  "noiseOf [] = []"
| "noiseOf ((c, blank) # blocks) = c @ blank @ noiseOf blocks"

text \<open>
  The parser applies the frontmatter parser (a black box of the spec) to the stripped
  text.
\<close>

definition parseManifest :: "(string \<Rightarrow> 'r) \<Rightarrow> string \<Rightarrow> 'r" where
  "parseManifest parseFrontmatter rawText =
     parseFrontmatter (stripLeadingHtmlCommentBlocks rawText)"

section \<open>Resource indexer (SkillRegistry.ts)\<close>

text \<open>
  Modelled from the spec: the resource indexer of SkillRegistry.ts, which is not among
  the sources (only the test of its result is). The spec, section 4.1: the unified map
  is built from a recursive walk of the whole bundle, leaving out the manifest file
  itself and a fixed exclusion set of path prefixes, \<open>USER/\<close>, \<open>WORK/\<close>,
  \<open>node_modules/\<close>, and any dot-directory; every other file is indexed under its
  bundle-relative path, case preserved; a directory that cannot be listed gives an
  empty branch. The table from extension to MIME type is a parameter.
\<close>

datatype fsNode = File string | Dir string "fsNode list" | Unreadable string

definition excludedDir :: "string list \<Rightarrow> string \<Rightarrow> bool" where
  "excludedDir parent n \<longleftrightarrow>
     (parent = [] \<and> n \<in> set [''USER'', ''WORK'', ''node_modules'']) \<or> startsWith n ''.''"

fun walk :: "string list \<Rightarrow> fsNode \<Rightarrow> string list list" where
  "walk parent (File n) = [parent @ [n]]"
| "walk parent (Dir n children) =
     (if excludedDir parent n then [] else concat (map (walk (parent @ [n])) children))"
| "walk parent (Unreadable n) = []"

fun joinPath :: "string list \<Rightarrow> string" where
  "joinPath [] = []"
| "joinPath [s] = s"
| "joinPath (s # t # ss) = s @ ''/'' @ joinPath (t # ss)"

text \<open>
  Modelled from the spec: the unified map of the indexer (its file SkillRegistry.ts is
  missing): every file the walk reaches but the manifest, keyed by its bundle-relative
  path.
\<close>

definition indexResources ::
  "string \<Rightarrow> (string \<Rightarrow> string) \<Rightarrow> string \<Rightarrow> fsNode list \<Rightarrow> SkillResourceMap" where
  "indexResources root mimeOf manifest entries =
     map (\<lambda>rel. (rel, \<lparr>absolutePath = root @ ''/'' @ rel, mimeType = mimeOf rel\<rparr>))
       (filter (\<lambda>rel. rel \<noteq> manifest) (map joinPath (concat (map (walk []) entries))))"

text \<open>The names of a file system: not empty and without a slash.\<close>

definition okName :: "string \<Rightarrow> bool" where
  "okName n \<longleftrightarrow> n \<noteq> [] \<and> CHR ''/'' \<notin> set n"

fun wellNamed :: "fsNode \<Rightarrow> bool" where
  "wellNamed (File n) \<longleftrightarrow> okName n"
| "wellNamed (Dir n children) \<longleftrightarrow> okName n \<and> list_all wellNamed children"
| "wellNamed (Unreadable n) \<longleftrightarrow> okName n"

definition paiBundle :: "fsNode list" where
  "paiBundle =
     [File ''SKILL.md'', File ''CoreStack.md'',
      Dir ''Workflows'' [File ''Onboarding.md'', Dir ''.cache'' [File ''tmp.md'']],
      Dir ''Tools'' [File ''Inference.ts'', Dir ''node_modules'' [File ''kept.js'']],
      Dir ''USER'' [File ''README.md''], Dir ''WORK'' [File ''notes.md''],
      Dir ''node_modules'' [Dir ''fake'' [File ''readme.md'']],
      Dir ''.git'' [File ''config''], Unreadable ''locked'',
      Dir ''docs'' [File ''SKILL.md'']]"

section \<open>Registry controller (SkillRegistry.ts)\<close>

text \<open>
  Modelled from the spec: \<open>createSkillRegistryController\<close> of SkillRegistry.ts, which is
  not among the sources (only its test is). The spec, section 4.3: \<open>set(key, skill)\<close>
  registers the skill under the key and its alias set (the lower-cased tool name, the
  original name, the kebab and snake variants of both); it fails with the alias
  collision error, which carries the offending key, when an alias is already bound to a
  different skill, compared by the identity of the stored record; setting the same skill
  again is permitted. A stored skill is the pair of its object identity and its record;
  the map keeps insertion order, and \<open>mapSet\<close> is the \<open>set\<close> of a JavaScript \<open>Map\<close>.
\<close>

type_synonym SkillRef = "nat \<times> Skill"

definition toKebab :: "string \<Rightarrow> string" where
  "toKebab s = map (\<lambda>c. if c = CHR ''_'' then CHR ''-'' else c) s"

definition toSnake :: "string \<Rightarrow> string" where
  "toSnake s = map (\<lambda>c. if c = CHR ''-'' then CHR ''_'' else c) s"

definition aliasKeys :: "caseFold \<Rightarrow> string \<Rightarrow> Skill \<Rightarrow> string list" where
  "aliasKeys lc key skill =
     [key, toLowerCase lc (toolName skill), name skill,
      toKebab (toLowerCase lc (toolName skill)), toSnake (toLowerCase lc (toolName skill)),
      toKebab (name skill), toSnake (name skill)]"

record Controller =
  aliasMap :: "(string \<times> SkillRef) list"
  ids :: "string list"

fun mapSet :: "('k \<times> 'v) list \<Rightarrow> 'k \<Rightarrow> 'v \<Rightarrow> ('k \<times> 'v) list" where
  "mapSet [] k v = [(k, v)]"
| "mapSet ((k', v') # m) k v = (if k' = k then (k, v) # m else (k', v') # mapSet m k v)"

datatype controllerError = AliasCollisionError (offendingKey: string)

definition collides :: "Controller \<Rightarrow> SkillRef \<Rightarrow> string \<Rightarrow> bool" where
  "collides st obj a =
     (case map_of (aliasMap st) a of None \<Rightarrow> False | Some other \<Rightarrow> fst other \<noteq> fst obj)"

text \<open>
  Modelled from the spec: \<open>controller.set\<close> (its file SkillRegistry.ts is missing): the
  aliases are checked first, in the order of \<open>aliasKeys\<close>, and written only when none
  collides.
\<close>

definition controllerSet ::
  "caseFold \<Rightarrow> Controller \<Rightarrow> string \<Rightarrow> SkillRef \<Rightarrow> controllerError + Controller" where
  "controllerSet lc st key obj =
     (case List.find (collides st obj) (aliasKeys lc key (snd obj)) of
        Some a \<Rightarrow> Inl (AliasCollisionError a)
      | None \<Rightarrow>
          Inr \<lparr>aliasMap = foldl (\<lambda>m a. mapSet m a obj) (aliasMap st) (aliasKeys lc key (snd obj)),
               ids = (if key \<in> set (ids st) then ids st else ids st @ [key])\<rparr>)"

definition emptyController :: Controller where
  "emptyController = \<lparr>aliasMap = [], ids = []\<rparr>"

definition fooBar :: SkillRef where
  "fooBar = (1, demoSkill\<lparr>name := ''foo-bar'', toolName := ''foo_bar''\<rparr>)"

definition fooBarV2 :: SkillRef where
  "fooBarV2 = (2, demoSkill\<lparr>name := ''foo-bar-v2'', toolName := ''foo-bar''\<rparr>)"

section \<open>Search ranker (SkillRegistry.ts)\<close>

text \<open>
  Modelled from the spec: the search of SkillRegistry.ts, which is not among the sources
  (only the types of its query and result are, in types.ts). The spec, section 4.5: a
  query is split at spaces, empty terms are dropped, and a term that begins with \<open>-\<close>
  excludes; a skill is excluded when an exclude term is a substring, whatever the case,
  of its name, tool name or description; it matches when every include term is such a
  substring; the matches are ordered by a weighted score, name over description, ties
  in registration order; \<open>totalMatches\<close> counts the skills that meet the include terms.
  The two weights and the wording of the feedback are parameters. \<open>includeTerms\<close> and
  \<open>excludeTerms\<close> are the fields \<open>include\<close> and \<open>exclude\<close> of the source's
  \<open>ParsedSkillQuery\<close>, and \<open>rankedSkill\<close> is the field \<open>skill\<close> of \<open>SkillRank\<close>.
\<close>

record ParsedSkillQuery =
  includeTerms :: "string list"
  excludeTerms :: "string list"
  originalQuery :: "string list"
  hasExclusions :: bool
  termCount :: nat

text \<open>
  Modelled from the spec: the query parser (its file SkillRegistry.ts is missing), over
  the terms of an array query and over a query string.
\<close>

definition parseTerms :: "string list \<Rightarrow> string list \<Rightarrow> ParsedSkillQuery" where
  "parseTerms original rawTerms =
     (let terms = filter (\<lambda>t. t \<noteq> []) rawTerms;
          inc = filter (\<lambda>t. \<not> startsWith t ''-'') terms;
          exc = filter (\<lambda>t. t \<noteq> []) (map (drop 1) (filter (\<lambda>t. startsWith t ''-'') terms))
      in \<lparr>includeTerms = inc, excludeTerms = exc, originalQuery = original,
          hasExclusions = (exc \<noteq> []), termCount = length inc + length exc\<rparr>)"

definition parseQuery :: "string \<Rightarrow> ParsedSkillQuery" where
  "parseQuery q = parseTerms [q] (splitOn (CHR '' '') q)"

definition containsTerm :: "caseFold \<Rightarrow> string \<Rightarrow> string \<Rightarrow> bool" where
  "containsTerm lc field term \<longleftrightarrow> sublist (toLowerCase lc term) (toLowerCase lc field)"

definition termHitsName :: "caseFold \<Rightarrow> Skill \<Rightarrow> string \<Rightarrow> bool" where
  "termHitsName lc s t \<longleftrightarrow> containsTerm lc (name s) t \<or> containsTerm lc (toolName s) t"

definition termHitsDesc :: "caseFold \<Rightarrow> Skill \<Rightarrow> string \<Rightarrow> bool" where
  "termHitsDesc lc s t \<longleftrightarrow> containsTerm lc (description s) t"

record SkillRank =
  rankedSkill :: Skill
  nameMatches :: nat
  descMatches :: nat
  totalScore :: nat

definition rankSkill :: "caseFold \<Rightarrow> nat \<Rightarrow> nat \<Rightarrow> ParsedSkillQuery \<Rightarrow> Skill \<Rightarrow> SkillRank" where
  "rankSkill lc nameWeight descWeight q s =
     (let n = length (filter (termHitsName lc s) (includeTerms q));
          d = length (filter (termHitsDesc lc s) (includeTerms q))
      in \<lparr>rankedSkill = s, nameMatches = n, descMatches = d,
          totalScore = nameWeight * n + descWeight * d\<rparr>)"

definition isExcluded :: "caseFold \<Rightarrow> ParsedSkillQuery \<Rightarrow> Skill \<Rightarrow> bool" where
  "isExcluded lc q s \<longleftrightarrow> list_ex (\<lambda>t. termHitsName lc s t \<or> termHitsDesc lc s t) (excludeTerms q)"

definition isMatch :: "caseFold \<Rightarrow> ParsedSkillQuery \<Rightarrow> Skill \<Rightarrow> bool" where
  "isMatch lc q s \<longleftrightarrow> list_all (\<lambda>t. termHitsName lc s t \<or> termHitsDesc lc s t) (includeTerms q)"

record SkillSearchResult =
  matches :: "Skill list"
  totalMatches :: nat
  totalSkills :: nat
  feedback :: string
  query :: ParsedSkillQuery

text \<open>
  Modelled from the spec: \<open>search\<close> (its file SkillRegistry.ts is missing), over the
  parsed query and over the raw query string.
\<close>

definition searchParsed ::
  "caseFold \<Rightarrow> nat \<Rightarrow> nat \<Rightarrow> (ParsedSkillQuery \<Rightarrow> nat \<Rightarrow> string) \<Rightarrow> Skill list \<Rightarrow> ParsedSkillQuery
     \<Rightarrow> SkillSearchResult" where
  "searchParsed lc nameWeight descWeight describe skills q =
     (let included = filter (isMatch lc q) skills;
          kept = filter (\<lambda>s. \<not> isExcluded lc q s) included;
          ranked = sort_key (\<lambda>r. - int (totalScore r))
                     (map (rankSkill lc nameWeight descWeight q) kept)
      in \<lparr>matches = map rankedSkill ranked, totalMatches = length included,
          totalSkills = length skills, feedback = describe q (length kept), query = q\<rparr>)"

definition search ::
  "caseFold \<Rightarrow> nat \<Rightarrow> nat \<Rightarrow> (ParsedSkillQuery \<Rightarrow> nat \<Rightarrow> string) \<Rightarrow> Skill list \<Rightarrow> string
     \<Rightarrow> SkillSearchResult" where
  "search lc nameWeight descWeight describe skills raw =
     searchParsed lc nameWeight descWeight describe skills (parseQuery raw)"

definition authSkill :: Skill where
  "authSkill = demoSkill\<lparr>name := ''auth-patterns'', toolName := ''skill_auth_patterns'',
     description := ''Common authentication patterns and best practices''\<rparr>"

definition oauthSkill :: Skill where
  "oauthSkill = demoSkill\<lparr>name := ''oauth-setup'', toolName := ''skill_oauth_setup'',
     description := ''OAuth implementation guide''\<rparr>"

definition jwtSkill :: Skill where
  "jwtSkill = demoSkill\<lparr>name := ''jwt-patterns'', toolName := ''skill_jwt_patterns'',
     description := ''JWT patterns for Authentication''\<rparr>"


section \<open>Properties of the resolver\<close>

lemmas resolver_unfold =
  resolver_def lookupPathOf_def rawTypeOf_def notFoundMessage_def isUnsafeResourcePath_def
  normalizeResourcePath_def toPosixPath_def bslash_def dquote_def startsWith_def
  findResourceEntry_def resolveLegacyResource_def resolveUnifiedResource_def
  retryByPrefix_def typeAsPath_def legacyCandidates_def findInMap_def mapGet_def
  loweredMap_def toLowerCase_def isAsciiChar_def lowerChar_def registryOf_def
  isAsciiLetter_def Let_def

subsection \<open>Every hit is an indexed entry\<close>

lemma mapGet_entries: "mapGet rm k = Some e \<Longrightarrow> e \<in> set (entriesOf rm)"
  by (auto simp: mapGet_def entriesOf_def split: option.splits
      dest: map_of_SomeD intro: rev_image_eqI)

lemma findExact_entries: "findExact rm cs = Some e \<Longrightarrow> e \<in> set (entriesOf rm)"
  by (induction cs) (auto simp: Let_def split: if_splits option.splits dest: mapGet_entries)

lemma lowerEntries_entries:
  "lowerEntries lc m acc k = Some e \<Longrightarrow> acc k = Some e \<or> e \<in> snd ` set m"
  by (induction lc m acc rule: lowerEntries.induct) (force split: if_splits)+

lemma loweredMap_entries: "loweredMap lc rm k = Some e \<Longrightarrow> e \<in> set (entriesOf rm)"
  using lowerEntries_entries [of _ _ Map.empty k e]
  by (auto simp: loweredMap_def entriesOf_def split: option.splits)

lemma findLowered_hit: "findLowered lc l cs = Some e \<Longrightarrow> \<exists>k. l k = Some e"
  by (induction cs) (auto simp: Let_def split: if_splits option.splits)

lemma findInMap_entries: "findInMap lc rm cs = Some e \<Longrightarrow> e \<in> set (entriesOf rm)"
  by (auto simp: findInMap_def split: option.splits
      dest: findExact_entries findLowered_hit loweredMap_entries)

lemma resolveLegacyResource_entries:
  "resolveLegacyResource lc skill ty p = Some e \<Longrightarrow> e \<in> set (indexedEntries skill)"
  by (auto simp: resolveLegacyResource_def indexedEntries_def entriesOf_def Let_def
      split: if_splits dest!: findInMap_entries)

lemma resolveUnifiedResource_entries:
  "resolveUnifiedResource lc skill ty p = Some e \<Longrightarrow> e \<in> set (indexedEntries skill)"
  unfolding resolveUnifiedResource_def Let_def indexedEntries_def
  by (auto split: if_splits dest!: findInMap_entries)

lemma orElse_cases: "orElse a b = Some e \<Longrightarrow> a = Some e \<or> b = Some e"
  by (cases a) auto

lemma retryByPrefix_entries:
  "retryByPrefix lc skill p = Some e \<Longrightarrow> e \<in> set (indexedEntries skill)"
  unfolding retryByPrefix_def Let_def
  by (auto split: if_splits dest!: orElse_cases dest: resolveLegacyResource_entries)

lemma typeAsPath_entries:
  "typeAsPath lc skill t = Some e \<Longrightarrow> e \<in> set (indexedEntries skill)"
  unfolding typeAsPath_def
  by (auto dest!: orElse_cases
      dest: resolveLegacyResource_entries resolveUnifiedResource_entries)

lemma findResourceEntry_entries:
  "findResourceEntry lc skill t p = Some e \<Longrightarrow> e \<in> set (indexedEntries skill)"
  unfolding findResourceEntry_def Let_def
  by (auto split: if_splits dest!: orElse_cases
      dest: resolveLegacyResource_entries resolveUnifiedResource_entries
            retryByPrefix_entries typeAsPath_entries)

text \<open>
  C2. Whatever the resolver hands to the file reader is the absolute path of an entry of
  one of the named skill's four maps, and a successful call returns the absolute path
  and the MIME type of that entry; the path read is never built from the caller's
  strings.
\<close>

theorem resolver_reads_only_indexed:
  "resolver lc get readSkillFile args = (reads, out) \<Longrightarrow>
     (\<forall>p \<in> set reads. \<exists>skill e. get (skill_name args) = Some skill
         \<and> e \<in> set (indexedEntries skill) \<and> p = absolutePath e)
   \<and> (\<forall>r. out = Inr r \<longrightarrow>
         (\<exists>skill e. get (skill_name args) = Some skill \<and> e \<in> set (indexedEntries skill)
            \<and> absolute_path r = absolutePath e \<and> mime_type r = mimeType e
            \<and> reads = [absolutePath e]))"
  unfolding resolver_def
  by (auto split: option.splits if_splits sum.splits dest: findResourceEntry_entries)

theorem resolver_reads_only_indexed_witness:
  "resolver noUnicodeFold (registryOf demoSkill) (\<lambda>p. Inr ''# Guide'')
       \<lparr>skill_name = ''demo'', type = ''reference'', relative_path = ''guide.md''\<rparr>
     = ([''/skills/demo/references/guide.md''],
        Inr \<lparr>absolute_path = ''/skills/demo/references/guide.md'',
             file_content = ''# Guide'', mime_type = ''text/markdown''\<rparr>)
   \<and> (\<exists>e. e \<in> set (indexedEntries demoSkill)
          \<and> absolutePath e = ''/skills/demo/references/guide.md''
          \<and> mimeType e = ''text/markdown'')"
proof -
  have run: "resolver noUnicodeFold (registryOf demoSkill) (\<lambda>p. Inr ''# Guide'')
       \<lparr>skill_name = ''demo'', type = ''reference'', relative_path = ''guide.md''\<rparr>
     = ([''/skills/demo/references/guide.md''],
        Inr \<lparr>absolute_path = ''/skills/demo/references/guide.md'',
             file_content = ''# Guide'', mime_type = ''text/markdown''\<rparr>)"
    by (simp add: resolver_unfold demoSkill_def guideEntry_def)
  from resolver_reads_only_indexed [OF run]
  have "\<exists>skill e. registryOf demoSkill ''demo'' = Some skill
          \<and> e \<in> set (indexedEntries skill)
          \<and> ''/skills/demo/references/guide.md'' = absolutePath e
          \<and> ''text/markdown'' = mimeType e"
    by auto
  then have "\<exists>e. e \<in> set (indexedEntries demoSkill)
          \<and> absolutePath e = ''/skills/demo/references/guide.md''
          \<and> mimeType e = ''text/markdown''"
    by (auto simp: registryOf_def demoSkill_def)
  with run show ?thesis by simp
qed

subsection \<open>The security gate\<close>

lemma unsafe_iff:
  "isUnsafeResourcePath v \<longleftrightarrow>
     normalizeResourcePath v = [] \<or> startsWith v ''/'' \<or> driveLetterPrefix v
     \<or> ''..'' \<in> set (splitOn (CHR ''/'') (normalizeResourcePath v))"
  by (auto simp: isUnsafeResourcePath_def Let_def)

lemma three_unsafe:
  "v \<in> set [''/etc/passwd'', ''C:'' @ [bslash] @ ''Windows'' @ [bslash] @ ''x'',
             ''../../secret'']
     \<Longrightarrow> v \<noteq> [] \<and> isUnsafeResourcePath v"
  by (auto simp: isUnsafeResourcePath_def normalizeResourcePath_def toPosixPath_def
      bslash_def startsWith_def isAsciiLetter_def)

text \<open>
  C1, as the code has it. The candidate path is the relative path; when that is empty it
  is the type, and when the type is empty too it is the default type \<open>resource\<close>
  (\<open>lookupPathOf\<close>). For every registered skill, a call whose candidate is empty after
  normalisation, begins with a slash or with a drive letter, colon and slash or
  backslash, or has a \<open>..\<close> segment after normalisation fails with the
  resource-not-found error and reads no file. The relative paths \<open>/etc/passwd\<close>,
  \<open>C:\Windows\x\<close> and \<open>../../secret\<close> are rejected for every skill and type, and the
  empty string is unsafe as a candidate.
\<close>

theorem unsafe_path_rejected:
  "get (skill_name args) = Some skill \<Longrightarrow>
     (normalizeResourcePath (lookupPathOf args) = []
        \<or> startsWith (lookupPathOf args) ''/''
        \<or> driveLetterPrefix (lookupPathOf args)
        \<or> ''..'' \<in> set (splitOn (CHR ''/'') (normalizeResourcePath (lookupPathOf args)))
      \<longrightarrow> resolver lc get readSkillFile args = ([], Inl (Error (notFoundMessage args))))
   \<and> (relative_path args \<in> set [''/etc/passwd'',
                                  ''C:'' @ [bslash] @ ''Windows'' @ [bslash] @ ''x'',
                                  ''../../secret'']
      \<longrightarrow> resolver lc get readSkillFile args = ([], Inl (Error (notFoundMessage args))))
   \<and> isUnsafeResourcePath ''''"
proof (intro conjI impI)
  assume g: "get (skill_name args) = Some skill"
  {
    assume "normalizeResourcePath (lookupPathOf args) = []
        \<or> startsWith (lookupPathOf args) ''/''
        \<or> driveLetterPrefix (lookupPathOf args)
        \<or> ''..'' \<in> set (splitOn (CHR ''/'') (normalizeResourcePath (lookupPathOf args)))"
    then have "isUnsafeResourcePath (lookupPathOf args)"
      by (simp only: unsafe_iff)
    with g show "resolver lc get readSkillFile args = ([], Inl (Error (notFoundMessage args)))"
      by (simp add: resolver_def)
  }
  {
    assume "relative_path args \<in> set [''/etc/passwd'',
                                  ''C:'' @ [bslash] @ ''Windows'' @ [bslash] @ ''x'',
                                  ''../../secret'']"
    from three_unsafe [OF this]
    have "isUnsafeResourcePath (lookupPathOf args)"
      by (simp add: lookupPathOf_def)
    with g show "resolver lc get readSkillFile args = ([], Inl (Error (notFoundMessage args)))"
      by (simp add: resolver_def)
  }
  show "isUnsafeResourcePath ''''"
    by (simp add: isUnsafeResourcePath_def normalizeResourcePath_def toPosixPath_def)
qed

theorem unsafe_path_rejected_witness:
  "registryOf demoSkill ''demo'' = Some demoSkill
   \<and> startsWith ''/etc/passwd'' ''/''
   \<and> ''/etc/passwd'' \<in> set [''/etc/passwd'',
                              ''C:'' @ [bslash] @ ''Windows'' @ [bslash] @ ''x'',
                              ''../../secret'']
   \<and> resolver noUnicodeFold (registryOf demoSkill) (\<lambda>p. Inr ''root:x:0:0'')
       \<lparr>skill_name = ''demo'', type = ''reference'', relative_path = ''/etc/passwd''\<rparr>
     = ([], Inl (Error (''Resource not found: Skill '' @ [dquote] @ ''demo'' @ [dquote]
          @ '' does not have a reference at path '' @ [dquote] @ ''/etc/passwd''
          @ [dquote])))"
  using unsafe_path_rejected
    [where get = "registryOf demoSkill" and skill = demoSkill
       and readSkillFile = "\<lambda>p. Inr ''root:x:0:0''"
       and args = "\<lparr>skill_name = ''demo'', type = ''reference'',
                     relative_path = ''/etc/passwd''\<rparr>"]
  by (simp add: registryOf_def demoSkill_def startsWith_def lookupPathOf_def
      notFoundMessage_def rawTypeOf_def)

text \<open>
  C1 as stated takes the type string for the candidate when the relative path is empty.
  With both empty that candidate is empty, yet the call is served: the type defaults to
  \<open>resource\<close>, which is a safe candidate and here the key of an indexed file.
\<close>

theorem empty_type_and_path_counterexample:
  "relative_path \<lparr>skill_name = ''demo'', type = '''', relative_path = ''''\<rparr> = ''''
   \<and> normalizeResourcePath
       (type \<lparr>skill_name = ''demo'', type = '''', relative_path = ''''\<rparr>) = ''''
   \<and> resolver noUnicodeFold (registryOf (demoSkill\<lparr>resources := Some [(''resource'', plainEntry)]\<rparr>))
       (\<lambda>p. Inr ''hello'')
       \<lparr>skill_name = ''demo'', type = '''', relative_path = ''''\<rparr>
     = ([''/skills/demo/resource''],
        Inr \<lparr>absolute_path = ''/skills/demo/resource'', file_content = ''hello'',
             mime_type = ''text/plain''\<rparr>)"
  by (simp add: resolver_unfold demoSkill_def plainEntry_def)

subsection \<open>Exact case first, folded case second\<close>

lemma findExact_all_miss:
  "(\<forall>c \<in> set cs. normalizeResourcePath c = [] \<or> mapGet rm (normalizeResourcePath c) = None)
     \<Longrightarrow> findExact rm cs = None"
  by (induction cs) (auto simp: Let_def)

lemma findExact_first_hit:
  "(\<forall>c \<in> set pre. normalizeResourcePath c = [] \<or> mapGet rm (normalizeResourcePath c) = None)
     \<Longrightarrow> normalizeResourcePath c \<noteq> [] \<Longrightarrow> mapGet rm (normalizeResourcePath c) = Some e
     \<Longrightarrow> findExact rm (pre @ c # post) = Some e"
  by (induction pre) (auto simp: Let_def)



lemma findLowered_first_hit:
  "(\<forall>c \<in> set pre. toLowerCase lc (normalizeResourcePath c) = []
        \<or> l (toLowerCase lc (normalizeResourcePath c)) = None)
     \<Longrightarrow> toLowerCase lc (normalizeResourcePath c) \<noteq> []
     \<Longrightarrow> l (toLowerCase lc (normalizeResourcePath c)) = Some e
     \<Longrightarrow> findLowered lc l (pre @ c # post) = Some e"
  by (induction pre) (auto simp: Let_def)

lemma findLowered_all_miss:
  "(\<forall>c \<in> set cs. toLowerCase lc (normalizeResourcePath c) = []
        \<or> l (toLowerCase lc (normalizeResourcePath c)) = None)
     \<Longrightarrow> findLowered lc l cs = None"
  by (induction cs) (auto simp: Let_def)

text \<open>The folded map holds, for a folded key, the last entry whose key folds to it.\<close>

lemma lowerEntries_map_of:
  "lowerEntries lc m acc k =
     (case map_of (rev (map (\<lambda>(key, v). (toLowerCase lc key, v)) m)) k of
        None \<Rightarrow> acc k | Some e \<Rightarrow> Some e)"
proof (induction m arbitrary: acc)
  case Nil
  show ?case by simp
next
  case (Cons kv m)
  obtain key v where kv: "kv = (key, v)" by (cases kv)
  have "lowerEntries lc (kv # m) acc k = lowerEntries lc m (acc(toLowerCase lc key \<mapsto> v)) k"
    by (simp add: kv)
  also have "\<dots> = (case map_of (rev (map (\<lambda>(key, v). (toLowerCase lc key, v)) m)) k of
        None \<Rightarrow> (acc(toLowerCase lc key \<mapsto> v)) k | Some e \<Rightarrow> Some e)"
    by (rule Cons.IH)
  also have "\<dots> = (case map_of (rev (map (\<lambda>(key, v). (toLowerCase lc key, v)) (kv # m))) k of
        None \<Rightarrow> acc k | Some e \<Rightarrow> Some e)"
    by (auto simp: kv map_of_append map_add_def split: option.splits)
  finally show ?case .
qed

lemma loweredMap_map_of:
  "loweredMap lc (Some m) k = map_of (rev (map (\<lambda>(key, v). (toLowerCase lc key, v)) m)) k"
  by (simp add: loweredMap_def lowerEntries_map_of split: option.splits)

lemma loweredMap_stored:
  assumes "(key, e) \<in> set m"
  shows "\<exists>key' e'. (key', e') \<in> set m \<and> toLowerCase lc key' = toLowerCase lc key
           \<and> loweredMap lc (Some m) (toLowerCase lc key) = Some e'"
proof -
  let ?l = "rev (map (\<lambda>(key, v). (toLowerCase lc key, v)) m)"
  from assms have "toLowerCase lc key \<in> fst ` set ?l" by force
  then obtain e' where "map_of ?l (toLowerCase lc key) = Some e'"
    by (metis domD dom_map_of_conv_image_fst)
  moreover from this have "(toLowerCase lc key, e') \<in> set ?l" by (rule map_of_SomeD)
  then obtain key' where "(key', e') \<in> set m" "toLowerCase lc key' = toLowerCase lc key"
    by auto
  ultimately show ?thesis by (auto simp: loweredMap_map_of)
qed

lemma loweredMap_only:
  assumes "map_of m key = Some e"
    and "\<forall>key' \<in> fst ` set m. toLowerCase lc key' = toLowerCase lc key \<longrightarrow> key' = key"
    and "distinct (map fst m)"
  shows "loweredMap lc (Some m) (toLowerCase lc key) = Some e"
proof -
  from loweredMap_stored [OF map_of_SomeD [OF assms(1)]]
  obtain key' e' where h: "(key', e') \<in> set m" "toLowerCase lc key' = toLowerCase lc key"
    "loweredMap lc (Some m) (toLowerCase lc key) = Some e'" by blast
  with assms(2) have "key' = key" by force
  with h(1) assms(3) have "map_of m key = Some e'" by simp
  with assms(1) h(3) show ?thesis by simp
qed

text \<open>
  C8. \<open>findInMap\<close> probes every candidate with its exact case first: the first
  candidate with an exact entry gives the result, whatever the folded keys are. Only
  when every exact probe misses is the result that of the pass over the lower-cased
  map: the first candidate whose lower-cased form is not empty and is a key of that
  map, which holds for a lower-cased key the last entry of the map whose key folds to
  it. A request that equals a stored key up to case, and whose lower-cased form is not
  empty (the second loop skips an empty one), is therefore found: the entry returned is
  stored under a key that folds to the request, and it is the entry of that very key
  when no other key of the map folds to the same. So the resource stored under
  \<open>Workflows/Onboarding.md\<close> is found when asked for as \<open>workflows/onboarding.md\<close>.
  All of it holds whatever the lower-casing of the strings that are not ASCII is.
\<close>

theorem findInMap_exact_then_folded:
  "((\<forall>c \<in> set pre. normalizeResourcePath c = [] \<or> mapGet rm (normalizeResourcePath c) = None)
      \<and> normalizeResourcePath c \<noteq> [] \<and> mapGet rm (normalizeResourcePath c) = Some e
      \<longrightarrow> findInMap lc rm (pre @ c # post) = Some e)
   \<and> ((\<forall>c \<in> set cs. normalizeResourcePath c = [] \<or> mapGet rm (normalizeResourcePath c) = None)
      \<longrightarrow> findInMap lc rm cs = findLowered lc (loweredMap lc rm) cs)
   \<and> ((\<forall>c \<in> set pre. toLowerCase lc (normalizeResourcePath c) = []
            \<or> l (toLowerCase lc (normalizeResourcePath c)) = None)
        \<and> toLowerCase lc (normalizeResourcePath c) \<noteq> []
        \<and> l (toLowerCase lc (normalizeResourcePath c)) = Some e
      \<longrightarrow> findLowered lc l (pre @ c # post) = Some e)
   \<and> ((\<forall>c \<in> set cs. toLowerCase lc (normalizeResourcePath c) = []
            \<or> l (toLowerCase lc (normalizeResourcePath c)) = None)
      \<longrightarrow> findLowered lc l cs = None)
   \<and> loweredMap lc (Some m) k
       = map_of (rev (map (\<lambda>(key, v). (toLowerCase lc key, v)) m)) k
   \<and> loweredMap lc None k = None
   \<and> ((key, e) \<in> set m \<and> normalizeResourcePath r \<noteq> []
        \<and> toLowerCase lc (normalizeResourcePath r) \<noteq> []
        \<and> toLowerCase lc (normalizeResourcePath r) = toLowerCase lc key
      \<longrightarrow> (\<exists>key' e'. (key', e') \<in> set m \<and> toLowerCase lc key' = toLowerCase lc key
            \<and> findInMap lc (Some m) [r] = Some e'))
   \<and> (map_of m key = Some e \<and> distinct (map fst m)
        \<and> (\<forall>key' \<in> fst ` set m. toLowerCase lc key' = toLowerCase lc key \<longrightarrow> key' = key)
        \<and> normalizeResourcePath r \<noteq> []
        \<and> toLowerCase lc (normalizeResourcePath r) \<noteq> []
        \<and> toLowerCase lc (normalizeResourcePath r) = toLowerCase lc key
      \<longrightarrow> findInMap lc (Some m) [r] = Some e)
   \<and> findInMap lc (Some [(''Workflows/Onboarding.md'', e)]) [''workflows/onboarding.md''] = Some e"
proof (intro conjI impI)
  assume u: "map_of m key = Some e \<and> distinct (map fst m)
        \<and> (\<forall>key' \<in> fst ` set m. toLowerCase lc key' = toLowerCase lc key \<longrightarrow> key' = key)
        \<and> normalizeResourcePath r \<noteq> []
        \<and> toLowerCase lc (normalizeResourcePath r) \<noteq> []
        \<and> toLowerCase lc (normalizeResourcePath r) = toLowerCase lc key"
  show "findInMap lc (Some m) [r] = Some e"
  proof (cases "map_of m (normalizeResourcePath r)")
    case (Some x)
    then have "(normalizeResourcePath r, x) \<in> set m" by (rule map_of_SomeD)
    then have "normalizeResourcePath r \<in> fst ` set m" by force
    with u have "normalizeResourcePath r = key" by blast
    with Some u show ?thesis
      by (simp add: findInMap_def mapGet_def)
  next
    case None
    from u have "loweredMap lc (Some m) (toLowerCase lc key) = Some e"
      by (intro loweredMap_only) auto
    with u have low: "loweredMap lc (Some m) (toLowerCase lc (normalizeResourcePath r)) = Some e"
      by simp
    from u have ne: "toLowerCase lc (normalizeResourcePath r) \<noteq> []" by blast
    from None u have "findExact (Some m) [r] = None"
      by (simp add: mapGet_def)
    with low ne show ?thesis
      by (simp add: findInMap_def Let_def)
  qed
next
  show "findInMap lc (Some [(''Workflows/Onboarding.md'', e)]) [''workflows/onboarding.md'']
      = Some e"
    by (simp add: findInMap_def normalizeResourcePath_def toPosixPath_def bslash_def
        mapGet_def loweredMap_def toLowerCase_def isAsciiChar_def lowerChar_def)
next
  assume "(\<forall>c \<in> set pre. normalizeResourcePath c = []
             \<or> mapGet rm (normalizeResourcePath c) = None)
      \<and> normalizeResourcePath c \<noteq> [] \<and> mapGet rm (normalizeResourcePath c) = Some e"
  then show "findInMap lc rm (pre @ c # post) = Some e"
    by (simp add: findInMap_def findExact_first_hit)
next
  assume "\<forall>c \<in> set cs. normalizeResourcePath c = []
            \<or> mapGet rm (normalizeResourcePath c) = None"
  then show "findInMap lc rm cs = findLowered lc (loweredMap lc rm) cs"
    by (simp add: findInMap_def findExact_all_miss)
next
  assume a: "(key, e) \<in> set m \<and> normalizeResourcePath r \<noteq> []
        \<and> toLowerCase lc (normalizeResourcePath r) \<noteq> []
        \<and> toLowerCase lc (normalizeResourcePath r) = toLowerCase lc key"
  show "\<exists>key' e'. (key', e') \<in> set m \<and> toLowerCase lc key' = toLowerCase lc key
            \<and> findInMap lc (Some m) [r] = Some e'"
  proof (cases "map_of m (normalizeResourcePath r)")
    case (Some x)
    then have "(normalizeResourcePath r, x) \<in> set m" by (rule map_of_SomeD)
    with Some a show ?thesis
      by (auto simp: findInMap_def mapGet_def)
  next
    case None
    from a loweredMap_stored [where key = key and e = e and m = m and lc = lc]
    obtain key' e' where "(key', e') \<in> set m" "toLowerCase lc key' = toLowerCase lc key"
      "loweredMap lc (Some m) (toLowerCase lc key) = Some e'" by auto
    with None a show ?thesis
      by (auto simp: findInMap_def mapGet_def Let_def)
  qed
next
  assume "(\<forall>c \<in> set pre. toLowerCase lc (normalizeResourcePath c) = []
            \<or> l (toLowerCase lc (normalizeResourcePath c)) = None)
        \<and> toLowerCase lc (normalizeResourcePath c) \<noteq> []
        \<and> l (toLowerCase lc (normalizeResourcePath c)) = Some e"
  then show "findLowered lc l (pre @ c # post) = Some e"
    by (simp add: findLowered_first_hit)
next
  assume "\<forall>c \<in> set cs. toLowerCase lc (normalizeResourcePath c) = []
            \<or> l (toLowerCase lc (normalizeResourcePath c)) = None"
  then show "findLowered lc l cs = None"
    by (rule findLowered_all_miss)
next
  show "loweredMap lc (Some m) k
       = map_of (rev (map (\<lambda>(key, v). (toLowerCase lc key, v)) m)) k"
    by (rule loweredMap_map_of)
next
  show "loweredMap lc None k = None"
    by (simp add: loweredMap_def)
qed

theorem findInMap_exact_then_folded_witness:
  "mapGet (Some [(''a.md'', plainEntry), (''A.md'', guideEntry)])
      (normalizeResourcePath ''missing.md'') = None
   \<and> mapGet (Some [(''a.md'', plainEntry), (''A.md'', guideEntry)])
      (normalizeResourcePath ''a.md'') = Some plainEntry
   \<and> findInMap noUnicodeFold (Some [(''a.md'', plainEntry), (''A.md'', guideEntry)])
      [''missing.md'', ''a.md'', ''A.md''] = Some plainEntry
   \<and> findInMap noUnicodeFold (Some [(''a.md'', plainEntry), (''A.md'', guideEntry)]) [''missing.md'']
      = findLowered noUnicodeFold (loweredMap noUnicodeFold (Some [(''a.md'', plainEntry), (''A.md'', guideEntry)]))
          [''missing.md'']
   \<and> loweredMap noUnicodeFold (Some [(''a.md'', plainEntry), (''A.md'', guideEntry)]) ''a.md''
      = Some guideEntry
   \<and> loweredMap noUnicodeFold (Some [(''a.md'', plainEntry), (''A.md'', guideEntry)]) ''missing.md''
      = None
   \<and> findLowered noUnicodeFold (loweredMap noUnicodeFold (Some [(''a.md'', plainEntry), (''A.md'', guideEntry)]))
      [''missing.md'', ''A.MD''] = Some guideEntry
   \<and> findLowered noUnicodeFold (loweredMap noUnicodeFold (Some [(''a.md'', plainEntry), (''A.md'', guideEntry)]))
      [''missing.md''] = None
   \<and> findInMap noUnicodeFold (Some [(''a.md'', plainEntry), (''A.md'', guideEntry)])
      [''missing.md'', ''A.MD''] = Some guideEntry
   \<and> (\<exists>key' e'. (key', e') \<in> set [(''Workflows/Onboarding.md'', guideEntry)]
         \<and> toLowerCase noUnicodeFold key' = toLowerCase noUnicodeFold ''Workflows/Onboarding.md''
         \<and> findInMap noUnicodeFold (Some [(''Workflows/Onboarding.md'', guideEntry)])
              [''workflows/onboarding.md''] = Some e')
   \<and> distinct (map fst [(''README.md'', plainEntry), (''Workflows/Onboarding.md'', guideEntry)])
   \<and> findInMap noUnicodeFold (Some [(''README.md'', plainEntry), (''Workflows/Onboarding.md'', guideEntry)])
        [''workflows/onboarding.md''] = Some guideEntry
   \<and> findInMap eAcuteFold
        (Some [(capitalEAcute @ ''.md'', plainEntry), (smallEAcute @ ''.md'', guideEntry)])
        [capitalEAcute @ ''.MD''] = Some guideEntry"
proof -
  let ?m = "[(''a.md'', plainEntry), (''A.md'', guideEntry)]"
  let ?w = "[(''README.md'', plainEntry), (''Workflows/Onboarding.md'', guideEntry)]"
  let ?l = "loweredMap noUnicodeFold (Some ?m)"
  have n: "normalizeResourcePath ''missing.md'' = ''missing.md''"
    "normalizeResourcePath ''a.md'' = ''a.md''"
    "normalizeResourcePath ''A.MD'' = ''A.MD''"
    "normalizeResourcePath ''workflows/onboarding.md'' = ''workflows/onboarding.md''"
    by (simp_all add: normalizeResourcePath_def toPosixPath_def bslash_def)
  have lo: "toLowerCase noUnicodeFold ''missing.md'' = ''missing.md''"
    "toLowerCase noUnicodeFold ''A.MD'' = ''a.md''"
    "toLowerCase noUnicodeFold ''a.md'' = ''a.md''"
    "toLowerCase noUnicodeFold ''A.md'' = ''a.md''"
    by (simp_all add: toLowerCase_def isAsciiChar_def lowerChar_def)
  have miss: "mapGet (Some ?m) (normalizeResourcePath ''missing.md'') = None"
    and hit: "mapGet (Some ?m) (normalizeResourcePath ''a.md'') = Some plainEntry"
    and miss2: "mapGet (Some ?m) (normalizeResourcePath ''A.MD'') = None"
    by (simp_all add: n mapGet_def)
  have fold: "toLowerCase noUnicodeFold (normalizeResourcePath ''workflows/onboarding.md'')
      = toLowerCase noUnicodeFold ''Workflows/Onboarding.md''"
    and full: "toLowerCase noUnicodeFold (normalizeResourcePath ''workflows/onboarding.md'')
      \<noteq> []"
    by (simp_all add: n toLowerCase_def isAsciiChar_def lowerChar_def)
  note t = findInMap_exact_then_folded
    [where pre = "[''missing.md'']" and c = "''a.md''" and post = "[''A.md'']"
       and rm = "Some ?m" and e = plainEntry and cs = "[''missing.md'']"]
  note f = findInMap_exact_then_folded
    [where pre = "[''missing.md'']" and c = "''A.MD''" and post = "[]"
       and rm = "Some ?m" and e = guideEntry and cs = "[''missing.md'', ''A.MD'']"
       and l = ?l and lc = noUnicodeFold and m = ?m]
  have one: "findInMap noUnicodeFold (Some ?m) [''missing.md'', ''a.md'', ''A.md''] = Some plainEntry"
    using t [THEN conjunct1] miss hit by (simp add: n)
  have two: "findInMap noUnicodeFold (Some ?m) [''missing.md'']
      = findLowered noUnicodeFold (loweredMap noUnicodeFold (Some ?m)) [''missing.md'']"
    using t [THEN conjunct2, THEN conjunct1] miss by simp
  have lhit: "?l ''a.md'' = Some guideEntry"
    using f [where k = "''a.md''", THEN conjunct2, THEN conjunct2, THEN conjunct2,
        THEN conjunct2, THEN conjunct1]
    by (simp add: lo)
  have lmiss: "?l ''missing.md'' = None"
    using f [where k = "''missing.md''", THEN conjunct2, THEN conjunct2, THEN conjunct2,
        THEN conjunct2, THEN conjunct1]
    by (simp add: lo)
  have fhit: "findLowered noUnicodeFold ?l [''missing.md'', ''A.MD''] = Some guideEntry"
    using f [THEN conjunct2, THEN conjunct2, THEN conjunct1] lhit lmiss
    by (simp add: n lo)
  have fmiss: "findLowered noUnicodeFold ?l [''missing.md''] = None"
    using findInMap_exact_then_folded
      [where cs = "[''missing.md'']" and l = ?l and lc = noUnicodeFold,
       THEN conjunct2, THEN conjunct2, THEN conjunct2, THEN conjunct1] lmiss
    by (simp add: n lo)
  have both: "findInMap noUnicodeFold (Some ?m) [''missing.md'', ''A.MD''] = Some guideEntry"
    using f [THEN conjunct2, THEN conjunct1] miss miss2 fhit by simp
  have three: "\<exists>key' e'. (key', e') \<in> set [(''Workflows/Onboarding.md'', guideEntry)]
         \<and> toLowerCase noUnicodeFold key' = toLowerCase noUnicodeFold ''Workflows/Onboarding.md''
         \<and> findInMap noUnicodeFold (Some [(''Workflows/Onboarding.md'', guideEntry)])
              [''workflows/onboarding.md''] = Some e'"
    using findInMap_exact_then_folded
      [where key = "''Workflows/Onboarding.md''" and e = guideEntry
         and m = "[(''Workflows/Onboarding.md'', guideEntry)]"
         and r = "''workflows/onboarding.md''" and lc = noUnicodeFold,
       THEN conjunct2, THEN conjunct2, THEN conjunct2, THEN conjunct2,
       THEN conjunct2, THEN conjunct2, THEN conjunct1]
      fold full
    by (simp add: n)
  have d: "distinct (map fst ?w)" by simp
  have only: "\<forall>key' \<in> fst ` set ?w.
      toLowerCase noUnicodeFold key' = toLowerCase noUnicodeFold ''Workflows/Onboarding.md''
        \<longrightarrow> key' = ''Workflows/Onboarding.md''"
    by (simp add: toLowerCase_def isAsciiChar_def lowerChar_def)
  have four: "findInMap noUnicodeFold (Some ?w) [''workflows/onboarding.md''] = Some guideEntry"
    using findInMap_exact_then_folded
      [where key = "''Workflows/Onboarding.md''" and e = guideEntry and m = ?w
         and r = "''workflows/onboarding.md''" and lc = noUnicodeFold,
       THEN conjunct2, THEN conjunct2, THEN conjunct2, THEN conjunct2,
       THEN conjunct2, THEN conjunct2, THEN conjunct2, THEN conjunct1]
      fold full d only
    by (simp add: n)
  let ?u = "[(capitalEAcute @ ''.md'', plainEntry), (smallEAcute @ ''.md'', guideEntry)]"
  let ?r = "capitalEAcute @ ''.MD''"
  have un: "normalizeResourcePath ?r = ?r"
    by (simp add: normalizeResourcePath_def toPosixPath_def bslash_def capitalEAcute_def)
  have ulo: "toLowerCase eAcuteFold ?r = smallEAcute @ ''.md''"
    "toLowerCase eAcuteFold (capitalEAcute @ ''.md'') = smallEAcute @ ''.md''"
    "toLowerCase eAcuteFold (smallEAcute @ ''.md'') = smallEAcute @ ''.md''"
    by (simp_all add: toLowerCase_def isAsciiChar_def lowerChar_def capitalEAcute_def
        smallEAcute_def)
  have une: "?r \<noteq> capitalEAcute @ ''.md''" "?r \<noteq> smallEAcute @ ''.md''"
    by (simp_all add: capitalEAcute_def smallEAcute_def)
  have umiss: "mapGet (Some ?u) (normalizeResourcePath ?r) = None"
    by (simp add: un une mapGet_def)
  note u = findInMap_exact_then_folded
    [where pre = "[]" and c = ?r and post = "[]" and rm = "Some ?u" and e = guideEntry
       and cs = "[?r]" and l = "loweredMap eAcuteFold (Some ?u)" and lc = eAcuteFold
       and m = ?u and k = "smallEAcute @ ''.md''"]
  have ulow: "loweredMap eAcuteFold (Some ?u) (smallEAcute @ ''.md'') = Some guideEntry"
    using u [THEN conjunct2, THEN conjunct2, THEN conjunct2, THEN conjunct2, THEN conjunct1]
    by (simp add: ulo)
  have ufold: "findLowered eAcuteFold (loweredMap eAcuteFold (Some ?u)) [?r] = Some guideEntry"
    using u [THEN conjunct2, THEN conjunct2, THEN conjunct1] ulow
    by (simp add: un ulo)
  have five: "findInMap eAcuteFold (Some ?u) [?r] = Some guideEntry"
    using u [THEN conjunct2, THEN conjunct1] umiss ufold by simp
  from miss hit one two lhit lmiss fhit fmiss both three d four five show ?thesis
    by (intro conjI)
qed

subsection \<open>The legacy lookup and its prefix\<close>

lemma lower_nonempty: "toLowerCase lc t = x # xs \<Longrightarrow> t \<noteq> []"
  by (auto simp: toLowerCase_def isAsciiChar_def)

lemma normalize_guide: "normalizeResourcePath ''guide.md'' = ''guide.md''"
  by (simp add: normalizeResourcePath_def toPosixPath_def bslash_def)

lemma normalize_ref_guide:
  "normalizeResourcePath ''references/guide.md'' = ''references/guide.md''"
  by (simp add: normalizeResourcePath_def toPosixPath_def bslash_def)

lemma candidates_guide:
  "legacyCandidates lc ''references'' ''guide.md'' = [''guide.md'', ''references/guide.md'']"
  by (simp add: legacyCandidates_def normalize_guide toLowerCase_def isAsciiChar_def lowerChar_def
      startsWith_def Let_def)

lemma candidates_ref_guide:
  "legacyCandidates lc ''references'' ''references/guide.md'' = [''references/guide.md'']"
  by (simp add: legacyCandidates_def normalize_ref_guide toLowerCase_def isAsciiChar_def lowerChar_def
      startsWith_def Let_def)

lemma safe_guide:
  "\<not> isUnsafeResourcePath ''guide.md''" "\<not> isUnsafeResourcePath ''references/guide.md''"
  by (simp_all add: isUnsafeResourcePath_def normalize_guide normalize_ref_guide
      startsWith_def)

lemma legacy_reference_type:
  "toLowerCase lc ty = ''reference'' \<or> toLowerCase lc ty = ''references'' \<Longrightarrow>
     resolveLegacyResource lc skill ty p
       = findInMap lc (Some (references skill)) (legacyCandidates lc ''references'' p)"
  by (auto simp: resolveLegacyResource_def)

lemma found_first: "resolveLegacyResource lc skill t p = Some e
    \<Longrightarrow> findResourceEntry lc skill t p = Some e"
  by (simp add: findResourceEntry_def)

text \<open>
  C7, as the code has it. For a registered skill whose references map holds
  \<open>references/guide.md\<close> and no key \<open>guide.md\<close>, and a type that is \<open>reference\<close> or
  \<open>references\<close> up to case, asking for \<open>guide.md\<close> has the very outcome of asking for
  \<open>references/guide.md\<close>: the entry stored under \<open>references/guide.md\<close> is read, and
  its absolute path, content and MIME type are returned when the read succeeds (the
  same read error otherwise). The legacy lookup takes the map of the type, \<open>script\<close>,
  \<open>asset\<close> or \<open>reference\<close> in the singular or the plural and up to case, and tries
  the normalised path as it is and then, unless the path carries it already, with the
  directory of the type before it.
\<close>

theorem legacy_prefix_fallback:
  assumes reg: "get nm = Some skill"
    and ty: "toLowerCase lc ty = ''reference'' \<or> toLowerCase lc ty = ''references''"
    and stored: "map_of (references skill) ''references/guide.md'' = Some e"
    and bare: "map_of (references skill) ''guide.md'' = None"
  shows "resolver lc get readSkillFile \<lparr>skill_name = nm, type = ty, relative_path = ''guide.md''\<rparr>
       = resolver lc get readSkillFile
           \<lparr>skill_name = nm, type = ty, relative_path = ''references/guide.md''\<rparr>
     \<and> resolver lc get readSkillFile \<lparr>skill_name = nm, type = ty, relative_path = ''guide.md''\<rparr>
       = (case readSkillFile (absolutePath e) of
            Inr text \<Rightarrow>
              ([absolutePath e],
               Inr \<lparr>absolute_path = absolutePath e, file_content = text,
                    mime_type = mimeType e\<rparr>)
          | Inl cause \<Rightarrow>
              ([absolutePath e],
               Inl (Error (''Failed to read resource at '' @ absolutePath e @ '': '' @ cause))))
     \<and> resolveLegacyResource lc skill t p
       = (if toLowerCase lc t = ''script'' \<or> toLowerCase lc t = ''scripts'' then
            findInMap lc (Some (scripts skill)) (legacyCandidates lc ''scripts'' p)
          else if toLowerCase lc t = ''asset'' \<or> toLowerCase lc t = ''assets'' then
            findInMap lc (Some (assets skill)) (legacyCandidates lc ''assets'' p)
          else if toLowerCase lc t = ''reference'' \<or> toLowerCase lc t = ''references'' then
            findInMap lc (Some (references skill)) (legacyCandidates lc ''references'' p)
          else None)
     \<and> legacyCandidates lc pfx p
       = (if normalizeResourcePath p = [] then []
          else if startsWith (toLowerCase lc (normalizeResourcePath p)) (toLowerCase lc pfx @ ''/'')
          then [normalizeResourcePath p]
          else [normalizeResourcePath p, pfx @ ''/'' @ normalizeResourcePath p])"
proof -
  have lookup: "resolveLegacyResource lc skill t p
       = (if toLowerCase lc t = ''script'' \<or> toLowerCase lc t = ''scripts'' then
            findInMap lc (Some (scripts skill)) (legacyCandidates lc ''scripts'' p)
          else if toLowerCase lc t = ''asset'' \<or> toLowerCase lc t = ''assets'' then
            findInMap lc (Some (assets skill)) (legacyCandidates lc ''assets'' p)
          else if toLowerCase lc t = ''reference'' \<or> toLowerCase lc t = ''references'' then
            findInMap lc (Some (references skill)) (legacyCandidates lc ''references'' p)
          else None)"
    by (simp add: resolveLegacyResource_def Let_def)
  have cands: "legacyCandidates lc pfx p
       = (if normalizeResourcePath p = [] then []
          else if startsWith (toLowerCase lc (normalizeResourcePath p)) (toLowerCase lc pfx @ ''/'')
          then [normalizeResourcePath p]
          else [normalizeResourcePath p, pfx @ ''/'' @ normalizeResourcePath p])"
    by (simp add: legacyCandidates_def Let_def)
  from ty have ne: "ty \<noteq> []" by (auto dest: lower_nonempty)
  have a: "findInMap lc (Some (references skill)) [''guide.md'', ''references/guide.md''] = Some e"
    using stored bare
    by (simp add: findInMap_def normalize_guide normalize_ref_guide mapGet_def)
  have b: "findInMap lc (Some (references skill)) [''references/guide.md''] = Some e"
    using stored by (simp add: findInMap_def normalize_ref_guide mapGet_def)
  have fa: "findResourceEntry lc skill ty ''guide.md'' = Some e"
    by (rule found_first) (simp add: legacy_reference_type [OF ty] candidates_guide a)
  have fb: "findResourceEntry lc skill ty ''references/guide.md'' = Some e"
    by (rule found_first) (simp add: legacy_reference_type [OF ty] candidates_ref_guide b)
  have "resolver lc get readSkillFile \<lparr>skill_name = nm, type = ty, relative_path = ''guide.md''\<rparr>
       = resolver lc get readSkillFile
           \<lparr>skill_name = nm, type = ty, relative_path = ''references/guide.md''\<rparr>
     \<and> resolver lc get readSkillFile \<lparr>skill_name = nm, type = ty, relative_path = ''guide.md''\<rparr>
       = (case readSkillFile (absolutePath e) of
            Inr text \<Rightarrow>
              ([absolutePath e],
               Inr \<lparr>absolute_path = absolutePath e, file_content = text,
                    mime_type = mimeType e\<rparr>)
          | Inl cause \<Rightarrow>
              ([absolutePath e],
               Inl (Error (''Failed to read resource at '' @ absolutePath e @ '': '' @ cause))))"
    using reg ne fa fb
    by (simp add: resolver_def lookupPathOf_def rawTypeOf_def safe_guide)
  then show ?thesis using lookup cands by (elim conjE, intro conjI)
qed


theorem legacy_prefix_fallback_witness:
  "registryOf demoSkill ''demo'' = Some demoSkill
   \<and> toLowerCase noUnicodeFold ''Reference'' = ''reference''
   \<and> map_of (references demoSkill) ''references/guide.md'' = Some guideEntry
   \<and> map_of (references demoSkill) ''guide.md'' = None
   \<and> resolver noUnicodeFold (registryOf demoSkill) (\<lambda>p. Inr ''# Guide'')
        \<lparr>skill_name = ''demo'', type = ''Reference'', relative_path = ''guide.md''\<rparr>
      = resolver noUnicodeFold (registryOf demoSkill) (\<lambda>p. Inr ''# Guide'')
        \<lparr>skill_name = ''demo'', type = ''Reference'', relative_path = ''references/guide.md''\<rparr>
   \<and> resolver noUnicodeFold (registryOf demoSkill) (\<lambda>p. Inr ''# Guide'')
        \<lparr>skill_name = ''demo'', type = ''Reference'', relative_path = ''guide.md''\<rparr>
      = ([''/skills/demo/references/guide.md''],
         Inr \<lparr>absolute_path = ''/skills/demo/references/guide.md'',
              file_content = ''# Guide'', mime_type = ''text/markdown''\<rparr>)"
proof -
  have h: "registryOf demoSkill ''demo'' = Some demoSkill"
    "toLowerCase noUnicodeFold ''Reference'' = ''reference'' \<or> toLowerCase noUnicodeFold ''Reference'' = ''references''"
    "map_of (references demoSkill) ''references/guide.md'' = Some guideEntry"
    "map_of (references demoSkill) ''guide.md'' = None"
    by (simp_all add: registryOf_def demoSkill_def toLowerCase_def isAsciiChar_def lowerChar_def)
  have l: "toLowerCase noUnicodeFold ''Reference'' = ''reference''"
    by (simp add: toLowerCase_def isAsciiChar_def lowerChar_def)
  note r = legacy_prefix_fallback
         [where get = "registryOf demoSkill" and nm = "''demo''"
            and readSkillFile = "\<lambda>p. Inr ''# Guide''", OF h]
  have "resolver noUnicodeFold (registryOf demoSkill) (\<lambda>p. Inr ''# Guide'')
        \<lparr>skill_name = ''demo'', type = ''Reference'', relative_path = ''guide.md''\<rparr>
      = resolver noUnicodeFold (registryOf demoSkill) (\<lambda>p. Inr ''# Guide'')
        \<lparr>skill_name = ''demo'', type = ''Reference'', relative_path = ''references/guide.md''\<rparr>"
    and "resolver noUnicodeFold (registryOf demoSkill) (\<lambda>p. Inr ''# Guide'')
        \<lparr>skill_name = ''demo'', type = ''Reference'', relative_path = ''guide.md''\<rparr>
      = ([''/skills/demo/references/guide.md''],
         Inr \<lparr>absolute_path = ''/skills/demo/references/guide.md'',
              file_content = ''# Guide'', mime_type = ''text/markdown''\<rparr>)"
    using r [THEN conjunct1] r [THEN conjunct2, THEN conjunct1]
    by (simp_all add: guideEntry_def)
  with h(1,3,4) l show ?thesis
    by (intro conjI)
qed


text \<open>
  C7 as stated holds for every skill whose references map has \<open>references/guide.md\<close>.
  The path is tried as it is first, so a references map that also has the bare key
  \<open>guide.md\<close> serves that entry for \<open>guide.md\<close> and the other for
  \<open>references/guide.md\<close>.
\<close>

theorem bare_key_shadows_prefixed_counterexample:
  "map_of (references (demoSkill\<lparr>references :=
        [(''guide.md'', plainEntry), (''references/guide.md'', guideEntry)]\<rparr>))
      ''references/guide.md'' = Some guideEntry
   \<and> resolver noUnicodeFold
        (registryOf (demoSkill\<lparr>references :=
           [(''guide.md'', plainEntry), (''references/guide.md'', guideEntry)]\<rparr>))
        (\<lambda>p. Inr (''content of '' @ p))
        \<lparr>skill_name = ''demo'', type = ''reference'', relative_path = ''guide.md''\<rparr>
      = ([''/skills/demo/resource''],
         Inr \<lparr>absolute_path = ''/skills/demo/resource'',
              file_content = ''content of /skills/demo/resource'',
              mime_type = ''text/plain''\<rparr>)
   \<and> resolver noUnicodeFold
        (registryOf (demoSkill\<lparr>references :=
           [(''guide.md'', plainEntry), (''references/guide.md'', guideEntry)]\<rparr>))
        (\<lambda>p. Inr (''content of '' @ p))
        \<lparr>skill_name = ''demo'', type = ''reference'', relative_path = ''references/guide.md''\<rparr>
      = ([''/skills/demo/references/guide.md''],
         Inr \<lparr>absolute_path = ''/skills/demo/references/guide.md'',
              file_content = ''content of /skills/demo/references/guide.md'',
              mime_type = ''text/markdown''\<rparr>)"
  by (simp add: resolver_unfold demoSkill_def plainEntry_def guideEntry_def)


subsection \<open>What the errors say\<close>

text \<open>
  C5, as the code has it. A call fails in one of three ways, and each has its message. A
  skill that is not registered gives \<open>Skill not found\<close> with the skill name only. An
  unsafe path, or no matching entry, gives the resource-not-found message, built from
  the caller's skill name, type (\<open>resource\<close> when the type is empty) and relative
  path, and from nothing else. A failed read of the entry found gives the message that
  names the absolute path of that indexed entry and the cause given by the file reader.
  Every failure is one of the three.
\<close>

theorem resolver_error_messages:
  "(get (skill_name args) = None
      \<longrightarrow> resolver lc get readSkillFile args
          = ([], Inl (Error (''Skill not found: '' @ skill_name args))))
   \<and> (get (skill_name args) = Some skill
        \<and> (isUnsafeResourcePath (lookupPathOf args)
           \<or> findResourceEntry lc skill (rawTypeOf args) (relative_path args) = None)
      \<longrightarrow> resolver lc get readSkillFile args
          = ([], Inl (Error
              (''Resource not found: Skill '' @ [dquote] @ skill_name args @ [dquote]
               @ '' does not have a '' @ (if type args = [] then ''resource'' else type args)
               @ '' at path '' @ [dquote] @ relative_path args @ [dquote]))))
   \<and> (get (skill_name args) = Some skill
        \<and> \<not> isUnsafeResourcePath (lookupPathOf args)
        \<and> findResourceEntry lc skill (rawTypeOf args) (relative_path args) = Some e
        \<and> readSkillFile (absolutePath e) = Inl cause
      \<longrightarrow> resolver lc get readSkillFile args
          = ([absolutePath e],
             Inl (Error (''Failed to read resource at '' @ absolutePath e @ '': '' @ cause))))
   \<and> (resolver lc get readSkillFile args = (reads, Inl err) \<longrightarrow>
        (get (skill_name args) = None \<and> reads = []
           \<and> message err = ''Skill not found: '' @ skill_name args)
      \<or> (\<exists>skill. get (skill_name args) = Some skill
            \<and> (isUnsafeResourcePath (lookupPathOf args)
               \<or> findResourceEntry lc skill (rawTypeOf args) (relative_path args) = None)
            \<and> reads = []
            \<and> message err =
                 ''Resource not found: Skill '' @ [dquote] @ skill_name args @ [dquote]
                 @ '' does not have a ''
                 @ (if type args = [] then ''resource'' else type args)
                 @ '' at path '' @ [dquote] @ relative_path args @ [dquote])
      \<or> (\<exists>skill e cause. get (skill_name args) = Some skill
            \<and> findResourceEntry lc skill (rawTypeOf args) (relative_path args) = Some e
            \<and> e \<in> set (indexedEntries skill)
            \<and> readSkillFile (absolutePath e) = Inl cause
            \<and> reads = [absolutePath e]
            \<and> message err
                = ''Failed to read resource at '' @ absolutePath e @ '': '' @ cause))"
proof (intro conjI impI)
  assume "get (skill_name args) = None"
  then show "resolver lc get readSkillFile args
      = ([], Inl (Error (''Skill not found: '' @ skill_name args)))"
    by (simp add: resolver_def)
next
  assume "get (skill_name args) = Some skill
        \<and> (isUnsafeResourcePath (lookupPathOf args)
           \<or> findResourceEntry lc skill (rawTypeOf args) (relative_path args) = None)"
  then show "resolver lc get readSkillFile args
          = ([], Inl (Error
              (''Resource not found: Skill '' @ [dquote] @ skill_name args @ [dquote]
               @ '' does not have a '' @ (if type args = [] then ''resource'' else type args)
               @ '' at path '' @ [dquote] @ relative_path args @ [dquote])))"
    by (auto simp: resolver_def notFoundMessage_def rawTypeOf_def)
next
  assume "get (skill_name args) = Some skill
        \<and> \<not> isUnsafeResourcePath (lookupPathOf args)
        \<and> findResourceEntry lc skill (rawTypeOf args) (relative_path args) = Some e
        \<and> readSkillFile (absolutePath e) = Inl cause"
  then show "resolver lc get readSkillFile args
          = ([absolutePath e],
             Inl (Error (''Failed to read resource at '' @ absolutePath e @ '': '' @ cause)))"
    by (simp add: resolver_def)
next
  assume "resolver lc get readSkillFile args = (reads, Inl err)"
  then show "(get (skill_name args) = None \<and> reads = []
           \<and> message err = ''Skill not found: '' @ skill_name args)
      \<or> (\<exists>skill. get (skill_name args) = Some skill
            \<and> (isUnsafeResourcePath (lookupPathOf args)
               \<or> findResourceEntry lc skill (rawTypeOf args) (relative_path args) = None)
            \<and> reads = []
            \<and> message err =
                 ''Resource not found: Skill '' @ [dquote] @ skill_name args @ [dquote]
                 @ '' does not have a ''
                 @ (if type args = [] then ''resource'' else type args)
                 @ '' at path '' @ [dquote] @ relative_path args @ [dquote])
      \<or> (\<exists>skill e cause. get (skill_name args) = Some skill
            \<and> findResourceEntry lc skill (rawTypeOf args) (relative_path args) = Some e
            \<and> e \<in> set (indexedEntries skill)
            \<and> readSkillFile (absolutePath e) = Inl cause
            \<and> reads = [absolutePath e]
            \<and> message err
                = ''Failed to read resource at '' @ absolutePath e @ '': '' @ cause)"
    unfolding resolver_def notFoundMessage_def rawTypeOf_def
    by (auto split: option.splits if_splits sum.splits dest: findResourceEntry_entries)
qed

theorem resolver_error_messages_witness:
  "registryOf demoSkill ''nobody'' = None
   \<and> resolver noUnicodeFold (registryOf demoSkill) (\<lambda>p. Inr ''# Guide'')
       \<lparr>skill_name = ''nobody'', type = ''reference'', relative_path = ''guide.md''\<rparr>
     = ([], Inl (Error ''Skill not found: nobody''))
   \<and> registryOf demoSkill ''demo'' = Some demoSkill
   \<and> findResourceEntry noUnicodeFold demoSkill ''reference'' ''missing.md'' = None
   \<and> resolver noUnicodeFold (registryOf demoSkill) (\<lambda>p. Inr ''# Guide'')
       \<lparr>skill_name = ''demo'', type = ''reference'', relative_path = ''missing.md''\<rparr>
     = ([], Inl (Error (''Resource not found: Skill '' @ [dquote] @ ''demo'' @ [dquote]
          @ '' does not have a reference at path '' @ [dquote] @ ''missing.md''
          @ [dquote])))
   \<and> \<not> isUnsafeResourcePath ''guide.md''
   \<and> findResourceEntry noUnicodeFold demoSkill ''reference'' ''guide.md'' = Some guideEntry
   \<and> resolver noUnicodeFold (registryOf demoSkill) (\<lambda>p. Inl ''EACCES'')
       \<lparr>skill_name = ''demo'', type = ''reference'', relative_path = ''guide.md''\<rparr>
     = ([''/skills/demo/references/guide.md''],
        Inl (Error ''Failed to read resource at /skills/demo/references/guide.md: EACCES''))"
proof -
  have unknown: "registryOf demoSkill ''nobody'' = None"
    and reg: "registryOf demoSkill ''demo'' = Some demoSkill"
    by (simp_all add: registryOf_def demoSkill_def)
  have none: "findResourceEntry noUnicodeFold demoSkill ''reference'' ''missing.md'' = None"
    and found: "findResourceEntry noUnicodeFold demoSkill ''reference'' ''guide.md''
      = Some guideEntry"
    by (simp_all add: resolver_unfold demoSkill_def guideEntry_def)
  have safe: "\<not> isUnsafeResourcePath ''guide.md''"
    by (rule safe_guide)
  have one: "resolver noUnicodeFold (registryOf demoSkill) (\<lambda>p. Inr ''# Guide'')
       \<lparr>skill_name = ''nobody'', type = ''reference'', relative_path = ''guide.md''\<rparr>
     = ([], Inl (Error ''Skill not found: nobody''))"
    using resolver_error_messages
      [where get = "registryOf demoSkill" and lc = noUnicodeFold
         and readSkillFile = "\<lambda>p. Inr ''# Guide''"
         and args = "\<lparr>skill_name = ''nobody'', type = ''reference'',
                       relative_path = ''guide.md''\<rparr>",
       THEN conjunct1]
      unknown
    by simp
  have two: "resolver noUnicodeFold (registryOf demoSkill) (\<lambda>p. Inr ''# Guide'')
       \<lparr>skill_name = ''demo'', type = ''reference'', relative_path = ''missing.md''\<rparr>
     = ([], Inl (Error (''Resource not found: Skill '' @ [dquote] @ ''demo'' @ [dquote]
          @ '' does not have a reference at path '' @ [dquote] @ ''missing.md''
          @ [dquote])))"
    using resolver_error_messages
      [where get = "registryOf demoSkill" and skill = demoSkill and lc = noUnicodeFold
         and readSkillFile = "\<lambda>p. Inr ''# Guide''"
         and args = "\<lparr>skill_name = ''demo'', type = ''reference'',
                       relative_path = ''missing.md''\<rparr>",
       THEN conjunct2, THEN conjunct1]
      reg none
    by (simp add: rawTypeOf_def)
  have three: "resolver noUnicodeFold (registryOf demoSkill) (\<lambda>p. Inl ''EACCES'')
       \<lparr>skill_name = ''demo'', type = ''reference'', relative_path = ''guide.md''\<rparr>
     = ([''/skills/demo/references/guide.md''],
        Inl (Error ''Failed to read resource at /skills/demo/references/guide.md: EACCES''))"
    using resolver_error_messages
      [where get = "registryOf demoSkill" and skill = demoSkill and lc = noUnicodeFold
         and readSkillFile = "\<lambda>p. Inl ''EACCES''" and e = guideEntry
         and cause = "''EACCES''"
         and args = "\<lparr>skill_name = ''demo'', type = ''reference'',
                       relative_path = ''guide.md''\<rparr>",
       THEN conjunct2, THEN conjunct2, THEN conjunct1]
      reg safe found
    by (simp add: rawTypeOf_def lookupPathOf_def guideEntry_def)
  from unknown one reg none two safe found three show ?thesis by (intro conjI)
qed

text \<open>
  C5 as stated covers a read failure too. There the message names the absolute path of
  the indexed file, which the caller did not supply.
\<close>

theorem read_failure_names_absolute_path_counterexample:
  "resolver noUnicodeFold (registryOf demoSkill) (\<lambda>p. Inl ''ENOENT'')
       \<lparr>skill_name = ''demo'', type = ''reference'', relative_path = ''guide.md''\<rparr>
     = ([''/skills/demo/references/guide.md''],
        Inl (Error ''Failed to read resource at /skills/demo/references/guide.md: ENOENT''))
   \<and> sublist ''/skills/demo/references/guide.md''
        ''Failed to read resource at /skills/demo/references/guide.md: ENOENT''
   \<and> \<not> sublist ''/skills'' (''demo'' @ ''reference'' @ ''guide.md'')"
proof -
  have "sublist ''/skills/demo/references/guide.md''
        ''Failed to read resource at /skills/demo/references/guide.md: ENOENT''"
    by code_simp
  moreover have "\<not> sublist ''/skills'' (''demo'' @ ''reference'' @ ''guide.md'')"
    by code_simp
  ultimately show ?thesis
    by (simp add: resolver_unfold demoSkill_def guideEntry_def)
qed
subsection \<open>The retry by path prefix\<close>

lemma generic_type_not_legacy:
  "toLowerCase lc ty \<in> set [''resource'', ''resources'', ''doc'', ''docs'']
     \<Longrightarrow> resolveLegacyResource lc skill ty p = None"
  by (auto simp: resolveLegacyResource_def)

lemma orElse_idem: "orElse a (orElse a b) = orElse a b"
  by (cases a) auto

lemma orElse_skip: "orElse a (orElse b (orElse a c)) = orElse a (orElse b c)"
  by (cases a; cases b) auto

lemma orElse_skip2: "orElse a (orElse b (orElse c a)) = orElse a (orElse b c)"
  by (cases a; cases b; cases c) auto

lemma orElse_None: "orElse a b = None \<longleftrightarrow> a = None \<and> b = None"
  by (cases a) auto

lemma prefixes_exclusive:
  "startsWith s ''scripts/'' \<Longrightarrow> \<not> startsWith s ''references/''"
  "startsWith s ''assets/'' \<Longrightarrow> \<not> startsWith s ''references/''"
  "startsWith s ''assets/'' \<Longrightarrow> \<not> startsWith s ''scripts/''"
  by (auto simp: startsWith_def prefix_def)

lemma retry_chain:
  assumes gen: "toLowerCase lc ty \<in> set [''resource'', ''resources'', ''doc'', ''docs'']"
    and rel: "rel \<noteq> []"
    and uni: "resolveUnifiedResource lc skill ty rel = None"
  shows "findResourceEntry lc skill ty rel = retryByPrefix lc skill rel"
  using rel uni gen generic_type_not_legacy [OF gen, of skill rel]
  by (simp add: findResourceEntry_def Let_def)

text \<open>
  C9, as the code has it. The retry is made under the generic types only: \<open>resource\<close>,
  \<open>resources\<close>, \<open>doc\<close>, \<open>docs\<close> up to case, or no type at all. For such a type and
  a non-empty relative path, once the typed legacy lookup (which has no map for a generic
  type) and the unified lookup have failed, a path that begins with \<open>references/\<close>,
  \<open>scripts/\<close> or \<open>assets/\<close> up to case is looked up in the legacy map of that prefix
  first and in the other two after it; the resource-not-found error is reported only
  when all three have missed.
\<close>

theorem prefix_retry_under_generic_types:
  assumes gen: "toLowerCase lc (rawTypeOf args) \<in> set [''resource'', ''resources'', ''doc'', ''docs'']"
    and rel: "relative_path args \<noteq> []"
    and uni: "resolveUnifiedResource lc skill (rawTypeOf args) (relative_path args) = None"
  shows
    "resolveLegacyResource lc skill (rawTypeOf args) (relative_path args) = None
     \<and> (startsWith (toLowerCase lc (normalizeResourcePath (relative_path args))) ''references/''
        \<longrightarrow> findResourceEntry lc skill (rawTypeOf args) (relative_path args)
            = orElse (resolveLegacyResource lc skill ''reference''
                        (normalizeResourcePath (relative_path args)))
                (orElse (resolveLegacyResource lc skill ''script''
                           (normalizeResourcePath (relative_path args)))
                   (resolveLegacyResource lc skill ''asset''
                      (normalizeResourcePath (relative_path args)))))
     \<and> (startsWith (toLowerCase lc (normalizeResourcePath (relative_path args))) ''scripts/''
        \<longrightarrow> findResourceEntry lc skill (rawTypeOf args) (relative_path args)
            = orElse (resolveLegacyResource lc skill ''script''
                        (normalizeResourcePath (relative_path args)))
                (orElse (resolveLegacyResource lc skill ''reference''
                           (normalizeResourcePath (relative_path args)))
                   (resolveLegacyResource lc skill ''asset''
                      (normalizeResourcePath (relative_path args)))))
     \<and> (startsWith (toLowerCase lc (normalizeResourcePath (relative_path args))) ''assets/''
        \<longrightarrow> findResourceEntry lc skill (rawTypeOf args) (relative_path args)
            = orElse (resolveLegacyResource lc skill ''asset''
                        (normalizeResourcePath (relative_path args)))
                (orElse (resolveLegacyResource lc skill ''reference''
                           (normalizeResourcePath (relative_path args)))
                   (resolveLegacyResource lc skill ''script''
                      (normalizeResourcePath (relative_path args)))))
     \<and> (get (skill_name args) = Some skill
          \<and> resolver lc get readSkillFile args = ([], Inl (Error (notFoundMessage args)))
          \<and> \<not> isUnsafeResourcePath (relative_path args)
        \<longrightarrow> resolveLegacyResource lc skill ''reference''
              (normalizeResourcePath (relative_path args)) = None
          \<and> resolveLegacyResource lc skill ''script''
              (normalizeResourcePath (relative_path args)) = None
          \<and> resolveLegacyResource lc skill ''asset''
              (normalizeResourcePath (relative_path args)) = None)"
proof -
  let ?nr = "normalizeResourcePath (relative_path args)"
  let ?lr = "toLowerCase lc ?nr"
  let ?R = "resolveLegacyResource lc skill ''reference'' ?nr"
  let ?S = "resolveLegacyResource lc skill ''script'' ?nr"
  let ?A = "resolveLegacyResource lc skill ''asset'' ?nr"
  note chain = retry_chain [OF gen rel uni]
  have leg: "resolveLegacyResource lc skill (rawTypeOf args) (relative_path args) = None"
    by (rule generic_type_not_legacy [OF gen])
  have r: "startsWith ?lr ''references/'' \<Longrightarrow>
      findResourceEntry lc skill (rawTypeOf args) (relative_path args) = orElse ?R (orElse ?S ?A)"
    by (simp add: chain retryByPrefix_def Let_def orElse_idem)
  have s: "startsWith ?lr ''scripts/'' \<Longrightarrow>
      findResourceEntry lc skill (rawTypeOf args) (relative_path args) = orElse ?S (orElse ?R ?A)"
    by (simp add: chain retryByPrefix_def Let_def orElse_skip prefixes_exclusive)
  have a: "startsWith ?lr ''assets/'' \<Longrightarrow>
      findResourceEntry lc skill (rawTypeOf args) (relative_path args) = orElse ?A (orElse ?R ?S)"
    by (simp add: chain retryByPrefix_def Let_def orElse_skip2 prefixes_exclusive)
  have all_none: "?R = None \<and> ?S = None \<and> ?A = None"
    if reg: "get (skill_name args) = Some skill"
      and nf: "resolver lc get readSkillFile args = ([], Inl (Error (notFoundMessage args)))"
      and safe: "\<not> isUnsafeResourcePath (relative_path args)"
  proof -
    from reg safe rel nf
    have "findResourceEntry lc skill (rawTypeOf args) (relative_path args) = None"
      by (auto simp: resolver_def lookupPathOf_def split: option.splits sum.splits)
    then have "retryByPrefix lc skill (relative_path args) = None"
      by (simp add: chain)
    then show ?thesis
      by (simp add: retryByPrefix_def Let_def orElse_None)
  qed
  from leg r s a all_none show ?thesis by blast
qed
theorem prefix_retry_under_generic_types_witness:
  "toLowerCase noUnicodeFold (rawTypeOf \<lparr>skill_name = ''demo'', type = ''Docs'',
        relative_path = ''References/guide.md''\<rparr>)
      \<in> set [''resource'', ''resources'', ''doc'', ''docs'']
   \<and> resolveUnifiedResource noUnicodeFold demoSkill ''Docs'' ''References/guide.md'' = None
   \<and> startsWith (toLowerCase noUnicodeFold (normalizeResourcePath ''References/guide.md'')) ''references/''
   \<and> findResourceEntry noUnicodeFold demoSkill ''Docs'' ''References/guide.md''
      = orElse (resolveLegacyResource noUnicodeFold demoSkill ''reference''
                  (normalizeResourcePath ''References/guide.md''))
          (orElse (resolveLegacyResource noUnicodeFold demoSkill ''script''
                     (normalizeResourcePath ''References/guide.md''))
             (resolveLegacyResource noUnicodeFold demoSkill ''asset''
                (normalizeResourcePath ''References/guide.md'')))
   \<and> findResourceEntry noUnicodeFold demoSkill ''Docs'' ''References/guide.md'' = Some guideEntry"
proof -
  let ?args = "\<lparr>skill_name = ''demo'', type = ''Docs'',
        relative_path = ''References/guide.md''\<rparr>"
  have gen: "toLowerCase noUnicodeFold (rawTypeOf ?args) \<in> set [''resource'', ''resources'', ''doc'', ''docs'']"
    by (simp add: rawTypeOf_def toLowerCase_def isAsciiChar_def lowerChar_def)
  have rel: "relative_path ?args \<noteq> []" by simp
  have uni: "resolveUnifiedResource noUnicodeFold demoSkill (rawTypeOf ?args) (relative_path ?args) = None"
    by (simp add: resolveUnifiedResource_def demoSkill_def Let_def)
  have pre: "startsWith (toLowerCase noUnicodeFold (normalizeResourcePath ''References/guide.md''))
      ''references/''"
    by (simp add: normalizeResourcePath_def toPosixPath_def bslash_def toLowerCase_def isAsciiChar_def
        lowerChar_def startsWith_def)
  have found: "findResourceEntry noUnicodeFold demoSkill ''Docs'' ''References/guide.md'' = Some guideEntry"
    by (simp add: resolver_unfold demoSkill_def)
  from prefix_retry_under_generic_types
    [OF gen rel uni, THEN conjunct2, THEN conjunct1] pre
  have "findResourceEntry noUnicodeFold demoSkill ''Docs'' ''References/guide.md''
      = orElse (resolveLegacyResource noUnicodeFold demoSkill ''reference''
                  (normalizeResourcePath ''References/guide.md''))
          (orElse (resolveLegacyResource noUnicodeFold demoSkill ''script''
                     (normalizeResourcePath ''References/guide.md''))
             (resolveLegacyResource noUnicodeFold demoSkill ''asset''
                (normalizeResourcePath ''References/guide.md'')))"
    by (simp add: rawTypeOf_def)
  with gen uni pre found show ?thesis
    by (simp add: rawTypeOf_def)
qed

text \<open>
  C9 as stated holds for every type. Under the type \<open>workflow\<close> the legacy and the
  unified lookup both miss, the path begins with \<open>references/\<close>, the references map
  has the file, and the resolver reports that the resource is not found: the retry is
  not made.
\<close>

theorem no_prefix_retry_for_workflow_counterexample:
  "resolveLegacyResource noUnicodeFold demoSkill ''workflow'' ''references/guide.md'' = None
   \<and> resolveUnifiedResource noUnicodeFold demoSkill ''workflow'' ''references/guide.md'' = None
   \<and> startsWith (toLowerCase noUnicodeFold (normalizeResourcePath ''references/guide.md'')) ''references/''
   \<and> resolveLegacyResource noUnicodeFold demoSkill ''reference''
        (normalizeResourcePath ''references/guide.md'') = Some guideEntry
   \<and> resolver noUnicodeFold (registryOf demoSkill) (\<lambda>p. Inr ''# Guide'')
        \<lparr>skill_name = ''demo'', type = ''workflow'', relative_path = ''references/guide.md''\<rparr>
      = ([], Inl (Error (''Resource not found: Skill '' @ [dquote] @ ''demo'' @ [dquote]
           @ '' does not have a workflow at path '' @ [dquote] @ ''references/guide.md''
           @ [dquote])))"
  by (simp add: resolver_unfold demoSkill_def)

section \<open>Properties of the skill parser\<close>

lemma findClose_length: "findClose t = Some r \<Longrightarrow> length r + 3 \<le> length t"
proof (induction t)
  case Nil
  then show ?case by simp
next
  case (Cons x t)
  show ?case
  proof (cases "prefix ''-->'' (x # t)")
    case True
    then obtain zs where z: "x # t = ''-->'' @ zs" by (rule prefixE)
    from True Cons.prems have "r = drop 3 (x # t)" by (simp del: Cons_prefix_Cons)
    with z show ?thesis by simp
  next
    case False
    with Cons.prems have "findClose t = Some r" by (simp del: Cons_prefix_Cons)
    from Cons.IH [OF this] show ?thesis by simp
  qed
qed

lemma prefix_append_long:
  "length p \<le> length xs \<Longrightarrow> prefix p (xs @ ys) \<longleftrightarrow> prefix p xs"
  using prefix_length_prefix [of p "xs @ ys" xs] by (auto intro: prefix_prefix)

lemma findClose_append:
  "findClose c = Some [] \<Longrightarrow> findClose (c @ rest) = Some rest"
proof (induction c)
  case Nil
  then show ?case by simp
next
  case (Cons x c)
  show ?case
  proof (cases "prefix ''-->'' (x # c)")
    case True
    then obtain zs where z: "x # c = ''-->'' @ zs" by (rule prefixE)
    from True Cons.prems have "drop 3 (x # c) = []" by (simp del: Cons_prefix_Cons)
    with z have "zs = []" by simp
    with z have "(x # c) @ rest = ''-->'' @ rest" by simp
    then show ?thesis by simp
  next
    case False
    with Cons.prems have fc: "findClose c = Some []" by (simp del: Cons_prefix_Cons)
    from findClose_length [OF fc] have "length ''-->'' \<le> length (x # c)" by simp
    from prefix_append_long [OF this] False
    have "\<not> prefix ''-->'' (x # (c @ rest))" by simp
    with Cons.IH [OF fc] show ?thesis by (simp del: Cons_prefix_Cons)
  qed
qed

lemma stripBlocks_comment:
  assumes "isCommentBlock c"
  shows "stripBlocks (c @ rest) = stripBlocks (dropWhile isBlank rest)"
proof -
  from assms obtain body where c: "c = ''<!--'' @ body" and close: "findClose body = Some []"
    by (auto simp: isCommentBlock_def startsWith_def prefix_def)
  have "findClose (drop 4 (c @ rest)) = Some rest"
    using findClose_append [OF close] by (simp add: c)
  moreover have "startsWith (c @ rest) ''<!--''"
    by (simp add: c startsWith_def)
  ultimately show ?thesis
    by (subst stripBlocks.simps) simp
qed

lemma stripBlocks_other: "\<not> startsWith s ''<!--'' \<Longrightarrow> stripBlocks s = s"
  by (subst stripBlocks.simps) simp

lemma stripBlocks_noise:
  assumes "\<forall>(c, blank) \<in> set blocks. isCommentBlock c \<and> (\<forall>x \<in> set blank. isBlank x)"
    and "\<not> startsWith rest ''<!--''"
    and "rest = [] \<or> \<not> isBlank (hd rest)"
    and "blocks \<noteq> []"
  shows "stripBlocks (noiseOf blocks @ rest) = rest"
  using assms
proof (induction blocks)
  case Nil
  then show ?case by simp
next
  case (Cons cb blocks)
  obtain c blank where cb: "cb = (c, blank)" by (cases cb)
  from Cons.prems(1) cb have cm: "isCommentBlock c" and bl: "\<forall>x \<in> set blank. isBlank x"
    by auto
  have "stripBlocks (noiseOf (cb # blocks) @ rest)
      = stripBlocks (dropWhile isBlank (blank @ noiseOf blocks @ rest))"
    using stripBlocks_comment [OF cm, of "blank @ noiseOf blocks @ rest"] by (simp add: cb)
  also have "dropWhile isBlank (blank @ noiseOf blocks @ rest)
      = dropWhile isBlank (noiseOf blocks @ rest)"
    using bl by (simp add: dropWhile_append)
  also have "stripBlocks (dropWhile isBlank (noiseOf blocks @ rest)) = rest"
  proof (cases blocks)
    case Nil
    with Cons.prems(3) have "dropWhile isBlank (noiseOf blocks @ rest) = rest"
      by (cases rest) auto
    with Cons.prems(2) show ?thesis by (simp add: stripBlocks_other)
  next
    case (Cons cb' blocks')
    obtain c' blank' where cb': "cb' = (c', blank')" by (cases cb')
    from Cons.prems(1) Cons cb' have "isCommentBlock c'" by auto
    then have "\<not> isBlank (hd (noiseOf blocks @ rest))" "noiseOf blocks @ rest \<noteq> []"
      by (auto simp: Cons cb' isCommentBlock_def startsWith_def prefix_def isBlank_def)
    then have "dropWhile isBlank (noiseOf blocks @ rest) = noiseOf blocks @ rest"
      by (cases "noiseOf blocks @ rest") auto
    with Cons.IH Cons.prems Cons show ?thesis by simp
  qed
  finally show ?case .
qed

lemma noise_not_bom:
  assumes "\<forall>(c, blank) \<in> set blocks. isCommentBlock c \<and> (\<forall>x \<in> set blank. isBlank x)"
    and "startsWith manifest ''---''"
  shows "\<not> startsWith (noiseOf blocks @ manifest) bom"
proof (cases blocks)
  case Nil
  from assms(2) obtain zs where "manifest = ''---'' @ zs"
    unfolding startsWith_def by (rule prefixE)
  with Nil show ?thesis
    by (simp add: startsWith_def bom_def)
next
  case (Cons cb blocks')
  obtain c blank where cb: "cb = (c, blank)" by (cases cb)
  from assms(1) Cons cb have "isCommentBlock c" by simp
  then have "startsWith c ''<!--''" by (simp add: isCommentBlock_def)
  then obtain zs where "c = ''<!--'' @ zs"
    unfolding startsWith_def by (rule prefixE)
  then show ?thesis
    by (simp add: Cons cb startsWith_def bom_def)
qed

text \<open>
  C6. For a manifest that begins with its frontmatter delimiter, preceded by an optional
  byte-order mark and by any number of comment blocks that only blanks separate, the
  stripped text is exactly the manifest, so parsing the noisy text gives what parsing
  the manifest gives. A text that begins neither with a byte-order mark nor with a
  comment is returned unchanged (a byte-order mark before it is all that is removed),
  whatever comment blocks come later in it.
\<close>

theorem strip_leading_noise:
  "((\<forall>(c, blank) \<in> set blocks. isCommentBlock c \<and> (\<forall>x \<in> set blank. isBlank x))
      \<and> startsWith manifest ''---'' \<and> (pre = [] \<or> pre = bom)
     \<longrightarrow> stripLeadingHtmlCommentBlocks (pre @ noiseOf blocks @ manifest) = manifest
        \<and> parseManifest parseFrontmatter (pre @ noiseOf blocks @ manifest)
            = parseManifest parseFrontmatter manifest)
   \<and> (\<not> startsWith doc ''<!--'' \<and> \<not> startsWith doc bom
     \<longrightarrow> stripLeadingHtmlCommentBlocks doc = doc
        \<and> stripLeadingHtmlCommentBlocks (bom @ doc) = doc)"
proof (intro conjI impI)
  assume a: "(\<forall>(c, blank) \<in> set blocks. isCommentBlock c \<and> (\<forall>x \<in> set blank. isBlank x))
      \<and> startsWith manifest ''---'' \<and> (pre = [] \<or> pre = bom)"
  then have "startsWith manifest ''---''" by simp
  then obtain zs where "manifest = ''---'' @ zs"
    unfolding startsWith_def by (rule prefixE)
  then have m: "\<not> startsWith manifest ''<!--''" "manifest = [] \<or> \<not> isBlank (hd manifest)"
    "\<not> startsWith manifest bom"
    by (simp_all add: startsWith_def isBlank_def bom_def)
  have blocks: "stripBlocks (noiseOf blocks @ manifest) = manifest"
  proof (cases "blocks = []")
    case True
    with m(1) show ?thesis by (simp add: stripBlocks_other)
  next
    case False
    with a m show ?thesis by (intro stripBlocks_noise) auto
  qed
  from a have nb: "\<not> startsWith (noiseOf blocks @ manifest) bom"
    by (intro noise_not_bom) auto
  from a have "pre = [] \<or> pre = bom" by simp
  then show noisy: "stripLeadingHtmlCommentBlocks (pre @ noiseOf blocks @ manifest) = manifest"
  proof
    assume "pre = []"
    with nb blocks show ?thesis by (simp add: stripLeadingHtmlCommentBlocks_def)
  next
    assume "pre = bom"
    with blocks show ?thesis
      by (simp add: stripLeadingHtmlCommentBlocks_def startsWith_def bom_def)
  qed
  have "stripLeadingHtmlCommentBlocks manifest = manifest"
    using m by (simp add: stripLeadingHtmlCommentBlocks_def stripBlocks_other)
  with noisy show "parseManifest parseFrontmatter (pre @ noiseOf blocks @ manifest)
            = parseManifest parseFrontmatter manifest"
    by (simp add: parseManifest_def)
next
  assume b: "\<not> startsWith doc ''<!--'' \<and> \<not> startsWith doc bom"
  then show "stripLeadingHtmlCommentBlocks doc = doc"
    by (simp add: stripLeadingHtmlCommentBlocks_def stripBlocks_other)
  from b show "stripLeadingHtmlCommentBlocks (bom @ doc) = doc"
    by (simp add: stripLeadingHtmlCommentBlocks_def stripBlocks_other startsWith_def bom_def)
qed

theorem strip_leading_noise_witness:
  "isCommentBlock ''<!-- one -->'' \<and> isCommentBlock ''<!-- two -->''
   \<and> isBlank (CHR 0x0A)
   \<and> startsWith (''---'' @ [CHR 0x0A] @ ''name: demo'') ''---''
   \<and> stripLeadingHtmlCommentBlocks
        (bom @ ''<!-- one -->'' @ [CHR 0x0A, CHR 0x0A] @ ''<!-- two -->'' @ [CHR 0x0A]
           @ ''---'' @ [CHR 0x0A] @ ''name: demo'')
      = ''---'' @ [CHR 0x0A] @ ''name: demo''
   \<and> \<not> startsWith (''# Intro'' @ [CHR 0x0A] @ ''<!-- note -->'') ''<!--''
   \<and> \<not> startsWith (''# Intro'' @ [CHR 0x0A] @ ''<!-- note -->'') bom
   \<and> stripLeadingHtmlCommentBlocks (''# Intro'' @ [CHR 0x0A] @ ''<!-- note -->'')
      = ''# Intro'' @ [CHR 0x0A] @ ''<!-- note -->''"
proof -
  let ?blocks = "[(''<!-- one -->'', [CHR 0x0A, CHR 0x0A]), (''<!-- two -->'', [CHR 0x0A])]"
  let ?manifest = "''---'' @ [CHR 0x0A] @ ''name: demo''"
  let ?prose = "''# Intro'' @ [CHR 0x0A] @ ''<!-- note -->''"
  have c: "isCommentBlock ''<!-- one -->''" "isCommentBlock ''<!-- two -->''"
    by (simp_all add: isCommentBlock_def startsWith_def)
  have b: "isBlank (CHR 0x0A)" by (simp add: isBlank_def)
  have m: "startsWith ?manifest ''---''" by (simp add: startsWith_def)
  have p: "\<not> startsWith ?prose ''<!--''" "\<not> startsWith ?prose bom"
    by (simp_all add: startsWith_def bom_def)
  from strip_leading_noise
    [where blocks = ?blocks and manifest = ?manifest and pre = bom
       and parseFrontmatter = "\<lambda>t. t", THEN conjunct1] c b m
  have one: "stripLeadingHtmlCommentBlocks
        (bom @ ''<!-- one -->'' @ [CHR 0x0A, CHR 0x0A] @ ''<!-- two -->'' @ [CHR 0x0A]
           @ ''---'' @ [CHR 0x0A] @ ''name: demo'')
      = ''---'' @ [CHR 0x0A] @ ''name: demo''"
    by simp
  from strip_leading_noise [where doc = ?prose, THEN conjunct2] p
  have two: "stripLeadingHtmlCommentBlocks ?prose = ?prose"
    by simp
  from c b m one p two show ?thesis by (intro conjI)
qed

section \<open>Properties of the indexer\<close>

lemma splitOn_nonempty: "splitOn c s \<noteq> []"
  by (induction s) (auto split: list.splits)

lemma splitOn_plain: "c \<notin> set s \<Longrightarrow> splitOn c s = [s]"
  by (induction s) auto

lemma splitOn_append:
  "c \<notin> set a \<Longrightarrow> splitOn c (a @ c # z) = a # splitOn c z"
  by (induction a) auto

lemma splitOn_joinPath:
  "segs \<noteq> [] \<Longrightarrow> \<forall>s \<in> set segs. CHR ''/'' \<notin> set s
     \<Longrightarrow> splitOn (CHR ''/'') (joinPath segs) = segs"
  by (induction segs rule: joinPath.induct) (auto simp: splitOn_plain splitOn_append)

lemma walk_shape:
  "segs \<in> set (walk parent node) \<Longrightarrow> wellNamed node \<Longrightarrow>
     \<exists>rest. segs = parent @ rest \<and> rest \<noteq> [] \<and> (\<forall>s \<in> set rest. okName s)
       \<and> (\<forall>d \<in> set (butlast rest). \<not> startsWith d ''.'')
       \<and> (parent = [] \<and> length rest \<ge> 2
            \<longrightarrow> hd rest \<notin> set [''USER'', ''WORK'', ''node_modules''])"
proof (induction parent node arbitrary: segs rule: walk.induct)
  case (1 parent n)
  then show ?case by auto
next
  case (2 parent n children)
  from "2.prems" have ex: "\<not> excludedDir parent n"
    by (auto split: if_splits)
  with "2.prems" obtain child where ch: "child \<in> set children"
    "segs \<in> set (walk (parent @ [n]) child)"
    by auto
  from "2.prems"(2) ch(1) have wn: "wellNamed child" "okName n"
    by (auto simp: list_all_iff)
  from "2.IH" [OF ex ch(1) ch(2) wn(1)]
  obtain rest where r: "segs = (parent @ [n]) @ rest" "rest \<noteq> []" "\<forall>s \<in> set rest. okName s"
    "\<forall>d \<in> set (butlast rest). \<not> startsWith d ''.''"
    by blast
  from ex have nd: "\<not> startsWith n ''.''"
    and top: "parent = [] \<Longrightarrow> n \<notin> set [''USER'', ''WORK'', ''node_modules'']"
    by (auto simp: excludedDir_def)
  show ?case
  proof (intro exI [of _ "n # rest"] conjI)
    show "segs = parent @ n # rest" using r(1) by simp
    show "n # rest \<noteq> []" by simp
    show "\<forall>s \<in> set (n # rest). okName s" using r(3) wn(2) by simp
    show "\<forall>d \<in> set (butlast (n # rest)). \<not> startsWith d ''.''"
      using r(2,4) nd by simp
    show "parent = [] \<and> length (n # rest) \<ge> 2
            \<longrightarrow> hd (n # rest) \<notin> set [''USER'', ''WORK'', ''node_modules'']"
      using top by simp
  qed
next
  case (3 parent n)
  then show ?case by simp
qed

lemma prefix_dir:
  assumes "segs \<noteq> []" "\<forall>s \<in> set segs. okName s" "startsWith (joinPath segs) (d @ ''/'')"
    "CHR ''/'' \<notin> set d"
  shows "hd segs = d \<and> length segs \<ge> 2"
proof -
  from assms(3) obtain z where z: "joinPath segs = d @ CHR ''/'' # z"
    by (auto simp: startsWith_def prefix_def)
  from assms(1,2) have "splitOn (CHR ''/'') (joinPath segs) = segs"
    by (intro splitOn_joinPath) (auto simp: okName_def)
  with z assms(4) have "segs = d # splitOn (CHR ''/'') z"
    by (simp add: splitOn_append)
  then show ?thesis
    using splitOn_nonempty [of "CHR ''/''" z]
    by (cases "splitOn (CHR ''/'') z") auto
qed

text \<open>
  C4. Over a bundle whose files and directories have file-system names, no key of the
  unified map is the manifest \<open>SKILL.md\<close>, none begins with \<open>USER/\<close>, \<open>WORK/\<close> or
  \<open>node_modules/\<close>, and none has a directory segment that begins with a dot, whatever
  files the bundle has on disk.
\<close>

theorem unified_map_exclusions:
  "list_all wellNamed entries \<Longrightarrow>
   k \<in> fst ` set (indexResources root mimeOf ''SKILL.md'' entries) \<Longrightarrow>
     k \<noteq> ''SKILL.md''
     \<and> \<not> startsWith k ''USER/'' \<and> \<not> startsWith k ''WORK/''
     \<and> \<not> startsWith k ''node_modules/''
     \<and> (\<forall>d \<in> set (butlast (splitOn (CHR ''/'') k)). \<not> startsWith d ''.'')"
proof -
  assume wn: "list_all wellNamed entries"
    and k: "k \<in> fst ` set (indexResources root mimeOf ''SKILL.md'' entries)"
  from k obtain node segs where n: "node \<in> set entries" "segs \<in> set (walk [] node)"
    and kj: "k = joinPath segs" and km: "k \<noteq> ''SKILL.md''"
    by (auto simp: indexResources_def)
  from wn n(1) have "wellNamed node" by (simp add: list_all_iff)
  from walk_shape [OF n(2) this]
  have ne: "segs \<noteq> []" and ok: "\<forall>s \<in> set segs. okName s"
    and dots: "\<forall>d \<in> set (butlast segs). \<not> startsWith d ''.''"
    and top: "length segs \<ge> 2 \<Longrightarrow> hd segs \<notin> set [''USER'', ''WORK'', ''node_modules'']"
    by auto
  have split: "splitOn (CHR ''/'') k = segs"
    unfolding kj using ne ok by (intro splitOn_joinPath) (auto simp: okName_def)
  have "\<not> startsWith k ''USER/''"
    using prefix_dir [OF ne ok, of "''USER''"] top by (auto simp: kj)
  moreover have "\<not> startsWith k ''WORK/''"
    using prefix_dir [OF ne ok, of "''WORK''"] top by (auto simp: kj)
  moreover have "\<not> startsWith k ''node_modules/''"
    using prefix_dir [OF ne ok, of "''node_modules''"] top by (auto simp: kj)
  ultimately show ?thesis
    using km dots by (simp add: split)
qed

theorem unified_map_exclusions_witness:
  "list_all wellNamed paiBundle
   \<and> map fst (indexResources ''/skills/PAI'' (\<lambda>rel. ''text/plain'') ''SKILL.md'' paiBundle)
      = [''CoreStack.md'', ''Workflows/Onboarding.md'', ''Tools/Inference.ts'',
         ''Tools/node_modules/kept.js'', ''docs/SKILL.md'']
   \<and> ''Workflows/Onboarding.md'' \<noteq> ''SKILL.md''
   \<and> \<not> startsWith ''Workflows/Onboarding.md'' ''USER/''
   \<and> butlast (splitOn (CHR ''/'') ''Workflows/Onboarding.md'') = [''Workflows'']
   \<and> \<not> startsWith ''Workflows'' ''.''"
proof -
  have dirs: "butlast (splitOn (CHR ''/'') ''Workflows/Onboarding.md'') = [''Workflows'']"
    by simp
  have wn: "list_all wellNamed paiBundle"
    by (simp add: paiBundle_def okName_def)
  have keys: "map fst (indexResources ''/skills/PAI'' (\<lambda>rel. ''text/plain'') ''SKILL.md''
        paiBundle)
      = [''CoreStack.md'', ''Workflows/Onboarding.md'', ''Tools/Inference.ts'',
         ''Tools/node_modules/kept.js'', ''docs/SKILL.md'']"
    by (simp add: indexResources_def paiBundle_def excludedDir_def startsWith_def)
  then have "''Workflows/Onboarding.md''
      \<in> fst ` set (indexResources ''/skills/PAI'' (\<lambda>rel. ''text/plain'') ''SKILL.md''
           paiBundle)"
    by (simp flip: set_map)
  from unified_map_exclusions [OF wn this] wn keys dirs show ?thesis
    by simp
qed

section \<open>Properties of the controller\<close>

lemma map_of_mapSet: "map_of (mapSet m k v) k' = (if k' = k then Some v else map_of m k')"
  by (induction m k v rule: mapSet.induct) auto

lemma map_of_setAll:
  "map_of (foldl (\<lambda>m a. mapSet m a v) m as) k = (if k \<in> set as then Some v else map_of m k)"
  by (induction as arbitrary: m) (auto simp: map_of_mapSet)

lemma mapSet_same: "map_of m k = Some v \<Longrightarrow> mapSet m k v = m"
  by (induction m k v rule: mapSet.induct) (auto split: if_splits)

lemma setAll_same:
  "\<forall>a \<in> set as. map_of m a = Some v \<Longrightarrow> foldl (\<lambda>m a. mapSet m a v) m as = m"
  by (induction as arbitrary: m) (auto simp: mapSet_same)

lemma set_bound:
  assumes "controllerSet lc st key obj = Inr st'"
  shows "\<forall>a \<in> set (aliasKeys lc key (snd obj)). map_of (aliasMap st') a = Some obj"
    and "key \<in> set (ids st')"
  using assms
  by (auto simp: controllerSet_def map_of_setAll split: option.splits)

lemma set_collision:
  assumes "a \<in> set (aliasKeys lc key (snd obj))" and "map_of (aliasMap st) a = Some other"
    and "fst other \<noteq> fst obj"
  shows "\<exists>k other'. controllerSet lc st key obj = Inl (AliasCollisionError k)
           \<and> k \<in> set (aliasKeys lc key (snd obj))
           \<and> map_of (aliasMap st) k = Some other' \<and> fst other' \<noteq> fst obj"
proof -
  from assms have "collides st obj a" by (simp add: collides_def)
  with assms(1) have "List.find (collides st obj) (aliasKeys lc key (snd obj)) \<noteq> None"
    by (auto simp: find_None_iff)
  then obtain k where f: "List.find (collides st obj) (aliasKeys lc key (snd obj)) = Some k"
    by auto
  then have "k \<in> set (aliasKeys lc key (snd obj))" "collides st obj k"
    by (auto simp: find_Some_iff)
  with f show ?thesis
    by (auto simp: controllerSet_def collides_def split: option.splits)
qed

lemma set_idempotent:
  assumes "controllerSet lc st key obj = Inr st'"
  shows "controllerSet lc st' key obj = Inr st'"
proof -
  note b = set_bound [OF assms]
  from b(1) have "\<forall>a \<in> set (aliasKeys lc key (snd obj)). \<not> collides st' obj a"
    by (simp add: collides_def)
  then have "List.find (collides st' obj) (aliasKeys lc key (snd obj)) = None"
    by (simp add: find_None_iff)
  with b setAll_same [of "aliasKeys lc key (snd obj)" "aliasMap st'" obj]
  show ?thesis
    by (simp add: controllerSet_def)
qed


text \<open>
  C3. When an alias of the skill being set is bound to a skill of another identity,
  \<open>set\<close> fails with the alias collision error, and the key it carries is such an
  alias. In particular, after a first skill has been set, setting a distinct skill
  whose alias set meets that of the first fails, and every alias of the first is still
  bound to it. Setting a skill again under the key it was set with succeeds and leaves
  the controller as it is.
\<close>

theorem alias_collision_detected:
  "((\<exists>a \<in> set (aliasKeys lc key (snd obj)). \<exists>other.
        map_of (aliasMap st) a = Some other \<and> fst other \<noteq> fst obj)
     \<longrightarrow> (\<exists>k other. controllerSet lc st key obj = Inl (AliasCollisionError k)
            \<and> k \<in> set (aliasKeys lc key (snd obj))
            \<and> map_of (aliasMap st) k = Some other \<and> fst other \<noteq> fst obj))
   \<and> (controllerSet lc stInit keyA objA = Inr stA \<and> fst objA \<noteq> fst objB
        \<and> set (aliasKeys lc keyA (snd objA)) \<inter> set (aliasKeys lc keyB (snd objB)) \<noteq> {}
     \<longrightarrow> (\<exists>k other. controllerSet lc stA keyB objB = Inl (AliasCollisionError k)
            \<and> k \<in> set (aliasKeys lc keyB (snd objB))
            \<and> map_of (aliasMap stA) k = Some other \<and> fst other \<noteq> fst objB)
         \<and> (\<forall>a \<in> set (aliasKeys lc keyA (snd objA)). map_of (aliasMap stA) a = Some objA))
   \<and> (controllerSet lc st key obj = Inr st' \<longrightarrow> controllerSet lc st' key obj = Inr st')"
proof (intro conjI impI)
  assume "\<exists>a \<in> set (aliasKeys lc key (snd obj)). \<exists>other.
        map_of (aliasMap st) a = Some other \<and> fst other \<noteq> fst obj"
  then show "\<exists>k other. controllerSet lc st key obj = Inl (AliasCollisionError k)
            \<and> k \<in> set (aliasKeys lc key (snd obj))
            \<and> map_of (aliasMap st) k = Some other \<and> fst other \<noteq> fst obj"
    using set_collision by blast
next
  assume "controllerSet lc st key obj = Inr st'"
  then show "controllerSet lc st' key obj = Inr st'" by (rule set_idempotent)
next
  assume a: "controllerSet lc stInit keyA objA = Inr stA \<and> fst objA \<noteq> fst objB
        \<and> set (aliasKeys lc keyA (snd objA)) \<inter> set (aliasKeys lc keyB (snd objB)) \<noteq> {}"
  then have bound: "\<forall>a \<in> set (aliasKeys lc keyA (snd objA)). map_of (aliasMap stA) a = Some objA"
    using set_bound(1) by blast
  then show "\<forall>a \<in> set (aliasKeys lc keyA (snd objA)). map_of (aliasMap stA) a = Some objA" .
  from a obtain x where x: "x \<in> set (aliasKeys lc keyA (snd objA))"
    "x \<in> set (aliasKeys lc keyB (snd objB))" by blast
  with bound have "map_of (aliasMap stA) x = Some objA" by blast
  from set_collision [OF x(2) this] a
  obtain k other where k: "controllerSet lc stA keyB objB = Inl (AliasCollisionError k)"
    "k \<in> set (aliasKeys lc keyB (snd objB))" "map_of (aliasMap stA) k = Some other"
    "fst other \<noteq> fst objB" by blast
  then show "\<exists>k other. controllerSet lc stA keyB objB = Inl (AliasCollisionError k)
            \<and> k \<in> set (aliasKeys lc keyB (snd objB))
            \<and> map_of (aliasMap stA) k = Some other \<and> fst other \<noteq> fst objB" by blast
qed


theorem alias_collision_detected_witness:
  "controllerSet noUnicodeFold emptyController ''foo_bar'' fooBar
     = Inr \<lparr>aliasMap = [(''foo_bar'', fooBar), (''foo-bar'', fooBar)], ids = [''foo_bar'']\<rparr>
   \<and> fst fooBar \<noteq> fst fooBarV2
   \<and> ''foo-bar'' \<in> set (aliasKeys noUnicodeFold ''foo_bar'' (snd fooBar))
        \<inter> set (aliasKeys noUnicodeFold ''foo-bar'' (snd fooBarV2))
   \<and> controllerSet noUnicodeFold
        \<lparr>aliasMap = [(''foo_bar'', fooBar), (''foo-bar'', fooBar)], ids = [''foo_bar'']\<rparr>
        ''foo-bar'' fooBarV2
      = Inl (AliasCollisionError ''foo-bar'')
   \<and> controllerSet noUnicodeFold
        \<lparr>aliasMap = [(''foo_bar'', fooBar), (''foo-bar'', fooBar)], ids = [''foo_bar'']\<rparr>
        ''foo_bar'' fooBar
      = Inr \<lparr>aliasMap = [(''foo_bar'', fooBar), (''foo-bar'', fooBar)], ids = [''foo_bar'']\<rparr>"
proof -
  let ?st1 = "\<lparr>aliasMap = [(''foo_bar'', fooBar), (''foo-bar'', fooBar)], ids = [''foo_bar'']\<rparr>"
  have keys1: "aliasKeys noUnicodeFold ''foo_bar'' (snd fooBar)
      = [''foo_bar'', ''foo_bar'', ''foo-bar'', ''foo-bar'', ''foo_bar'', ''foo-bar'', ''foo_bar'']"
    by (simp add: aliasKeys_def fooBar_def demoSkill_def toLowerCase_def isAsciiChar_def lowerChar_def
        toKebab_def toSnake_def)
  have keys2: "aliasKeys noUnicodeFold ''foo-bar'' (snd fooBarV2)
      = [''foo-bar'', ''foo-bar'', ''foo-bar-v2'', ''foo-bar'', ''foo_bar'', ''foo-bar-v2'',
         ''foo_bar_v2'']"
    by (simp add: aliasKeys_def fooBarV2_def demoSkill_def toLowerCase_def isAsciiChar_def lowerChar_def
        toKebab_def toSnake_def)
  have first: "controllerSet noUnicodeFold emptyController ''foo_bar'' fooBar = Inr ?st1"
    by (simp add: controllerSet_def keys1 emptyController_def collides_def)
  have ne: "fst fooBar \<noteq> fst fooBarV2"
    by (simp add: fooBar_def fooBarV2_def)
  have ov: "''foo-bar'' \<in> set (aliasKeys noUnicodeFold ''foo_bar'' (snd fooBar))
        \<inter> set (aliasKeys noUnicodeFold ''foo-bar'' (snd fooBarV2))"
    by (simp add: keys1 keys2)
  have second: "controllerSet noUnicodeFold ?st1 ''foo-bar'' fooBarV2 = Inl (AliasCollisionError ''foo-bar'')"
    by (simp add: controllerSet_def keys2 collides_def ne)
  note t = alias_collision_detected
    [where stInit = emptyController and keyA = "''foo_bar''" and objA = fooBar
       and stA = ?st1 and keyB = "''foo-bar''" and objB = fooBarV2
       and st = emptyController and key = "''foo_bar''" and obj = fooBar and st' = ?st1]
  from t [THEN conjunct2, THEN conjunct1] first ne ov
  have "\<exists>k other. controllerSet noUnicodeFold ?st1 ''foo-bar'' fooBarV2 = Inl (AliasCollisionError k)
            \<and> k \<in> set (aliasKeys noUnicodeFold ''foo-bar'' (snd fooBarV2))
            \<and> map_of (aliasMap ?st1) k = Some other \<and> fst other \<noteq> fst fooBarV2"
    by blast
  from t [THEN conjunct2, THEN conjunct2] first
  have again: "controllerSet noUnicodeFold ?st1 ''foo_bar'' fooBar = Inr ?st1"
    by simp
  from first ne ov second again show ?thesis by (intro conjI)
qed

section \<open>Properties of the search\<close>

lemma parse_auth_oauth:
  "includeTerms (parseQuery ''auth -oauth'') = [''auth'']"
  "excludeTerms (parseQuery ''auth -oauth'') = [''oauth'']"
  by (simp_all add: parseQuery_def parseTerms_def startsWith_def Let_def)

lemma lower_auth: "toLowerCase lc ''auth'' = ''auth''" "toLowerCase lc ''oauth'' = ''oauth''"
  by (simp_all add: toLowerCase_def isAsciiChar_def lowerChar_def)

lemma matches_set:
  "set (matches (searchParsed lc nameWeight descWeight describe skills q))
     = {s \<in> set skills. isMatch lc q s \<and> \<not> isExcluded lc q s}"
proof -
  have r: "rankedSkill (rankSkill lc nameWeight descWeight q x) = x" for x
    by (simp add: rankSkill_def Let_def)
  show ?thesis
    by (auto simp: searchParsed_def Let_def image_image r)
qed

lemma parse_fields:
  "includeTerms (parseQuery raw)
     = filter (\<lambda>t. t \<noteq> [] \<and> \<not> startsWith t ''-'') (splitOn (CHR '' '') raw)"
  "excludeTerms (parseQuery raw)
     = filter (\<lambda>t. t \<noteq> [])
         (map (drop 1) (filter (\<lambda>t. startsWith t ''-'') (splitOn (CHR '' '') raw)))"
proof -
  have "filter (\<lambda>t. startsWith t ''-'') (filter (\<lambda>t. t \<noteq> []) xs)
      = filter (\<lambda>t. startsWith t ''-'') xs" for xs :: "string list"
    by (induction xs) (auto simp: startsWith_def)
  then show "excludeTerms (parseQuery raw)
     = filter (\<lambda>t. t \<noteq> [])
         (map (drop 1) (filter (\<lambda>t. startsWith t ''-'') (splitOn (CHR '' '') raw)))"
    by (simp add: parseQuery_def parseTerms_def Let_def)
  show "includeTerms (parseQuery raw)
     = filter (\<lambda>t. t \<noteq> [] \<and> \<not> startsWith t ''-'') (splitOn (CHR '' '') raw)"
    by (simp add: parseQuery_def parseTerms_def Let_def)
qed

lemma matches_iff:
  "s \<in> set (matches (searchParsed lc nameWeight descWeight describe skills q)) \<longleftrightarrow>
     s \<in> set skills
     \<and> (\<forall>t \<in> set (includeTerms q).
           containsTerm lc (name s) t \<or> containsTerm lc (toolName s) t
           \<or> containsTerm lc (description s) t)
     \<and> \<not> (\<exists>t \<in> set (excludeTerms q).
           containsTerm lc (name s) t \<or> containsTerm lc (toolName s) t
           \<or> containsTerm lc (description s) t)"
  unfolding matches_set
  by (simp add: isMatch_def isExcluded_def termHitsName_def termHitsDesc_def
      list_all_iff list_ex_iff disj_assoc)

text \<open>
  C10. The query \<open>auth -oauth\<close> returns exactly the skills that have \<open>auth\<close> in the
  lower-cased name, tool name or description and \<open>oauth\<close> in none of them. For every
  query string, a skill is returned exactly when it is registered, every term of the
  query that is not empty and does not begin with \<open>-\<close> is a substring, whatever the
  case, of its name, tool name or description, and no term after a \<open>-\<close> is; when the
  query has no include term, all the skills that are not excluded are returned. The
  same holds of the search over a parsed query, and the parsed query of a string has
  those terms.
\<close>

theorem search_include_exclude:
  "set (matches (search lc nameWeight descWeight describe skills ''auth -oauth''))
     = {s \<in> set skills.
          (sublist ''auth'' (toLowerCase lc (name s))
             \<or> sublist ''auth'' (toLowerCase lc (toolName s))
             \<or> sublist ''auth'' (toLowerCase lc (description s)))
          \<and> \<not> (sublist ''oauth'' (toLowerCase lc (name s))
                \<or> sublist ''oauth'' (toLowerCase lc (toolName s))
                \<or> sublist ''oauth'' (toLowerCase lc (description s)))}
   \<and> (s \<in> set (matches (search lc nameWeight descWeight describe skills raw)) \<longleftrightarrow>
        s \<in> set skills
        \<and> (\<forall>t \<in> set (splitOn (CHR '' '') raw). t \<noteq> [] \<and> \<not> startsWith t ''-'' \<longrightarrow>
              containsTerm lc (name s) t \<or> containsTerm lc (toolName s) t
              \<or> containsTerm lc (description s) t)
        \<and> (\<forall>t \<in> set (splitOn (CHR '' '') raw). startsWith t ''-'' \<and> drop 1 t \<noteq> [] \<longrightarrow>
              \<not> (containsTerm lc (name s) (drop 1 t) \<or> containsTerm lc (toolName s) (drop 1 t)
                 \<or> containsTerm lc (description s) (drop 1 t))))
   \<and> ((\<forall>t \<in> set (splitOn (CHR '' '') raw). t = [] \<or> startsWith t ''-'') \<longrightarrow>
        set (matches (search lc nameWeight descWeight describe skills raw))
          = {s \<in> set skills.
               \<forall>t \<in> set (splitOn (CHR '' '') raw). startsWith t ''-'' \<and> drop 1 t \<noteq> [] \<longrightarrow>
                 \<not> (containsTerm lc (name s) (drop 1 t)
                    \<or> containsTerm lc (toolName s) (drop 1 t)
                    \<or> containsTerm lc (description s) (drop 1 t))})
   \<and> query (search lc nameWeight descWeight describe skills raw) = parseQuery raw
   \<and> includeTerms (parseQuery raw)
       = filter (\<lambda>t. t \<noteq> [] \<and> \<not> startsWith t ''-'') (splitOn (CHR '' '') raw)
   \<and> excludeTerms (parseQuery raw)
       = filter (\<lambda>t. t \<noteq> [])
           (map (drop 1) (filter (\<lambda>t. startsWith t ''-'') (splitOn (CHR '' '') raw)))
   \<and> (s \<in> set (matches (searchParsed lc nameWeight descWeight describe skills q)) \<longleftrightarrow>
        s \<in> set skills
        \<and> (\<forall>t \<in> set (includeTerms q).
              containsTerm lc (name s) t \<or> containsTerm lc (toolName s) t
              \<or> containsTerm lc (description s) t)
        \<and> \<not> (\<exists>t \<in> set (excludeTerms q).
              containsTerm lc (name s) t \<or> containsTerm lc (toolName s) t
              \<or> containsTerm lc (description s) t))
   \<and> (includeTerms q = [] \<longrightarrow>
        set (matches (searchParsed lc nameWeight descWeight describe skills q))
          = {s \<in> set skills. \<not> isExcluded lc q s})"
proof (intro conjI impI)
  show "set (matches (search lc nameWeight descWeight describe skills ''auth -oauth''))
     = {s \<in> set skills.
          (sublist ''auth'' (toLowerCase lc (name s))
             \<or> sublist ''auth'' (toLowerCase lc (toolName s))
             \<or> sublist ''auth'' (toLowerCase lc (description s)))
          \<and> \<not> (sublist ''oauth'' (toLowerCase lc (name s))
                \<or> sublist ''oauth'' (toLowerCase lc (toolName s))
                \<or> sublist ''oauth'' (toLowerCase lc (description s)))}"
    unfolding search_def matches_set
    by (simp add: isMatch_def isExcluded_def parse_auth_oauth termHitsName_def
        termHitsDesc_def containsTerm_def lower_auth disj_assoc)
next
  show general: "s \<in> set (matches (search lc nameWeight descWeight describe skills raw)) \<longleftrightarrow>
        s \<in> set skills
        \<and> (\<forall>t \<in> set (splitOn (CHR '' '') raw). t \<noteq> [] \<and> \<not> startsWith t ''-'' \<longrightarrow>
              containsTerm lc (name s) t \<or> containsTerm lc (toolName s) t
              \<or> containsTerm lc (description s) t)
        \<and> (\<forall>t \<in> set (splitOn (CHR '' '') raw). startsWith t ''-'' \<and> drop 1 t \<noteq> [] \<longrightarrow>
              \<not> (containsTerm lc (name s) (drop 1 t) \<or> containsTerm lc (toolName s) (drop 1 t)
                 \<or> containsTerm lc (description s) (drop 1 t)))" for s
    unfolding search_def matches_iff parse_fields by auto
  show "set (matches (search lc nameWeight descWeight describe skills raw))
          = {s \<in> set skills.
               \<forall>t \<in> set (splitOn (CHR '' '') raw). startsWith t ''-'' \<and> drop 1 t \<noteq> [] \<longrightarrow>
                 \<not> (containsTerm lc (name s) (drop 1 t)
                    \<or> containsTerm lc (toolName s) (drop 1 t)
                    \<or> containsTerm lc (description s) (drop 1 t))}"
    if "\<forall>t \<in> set (splitOn (CHR '' '') raw). t = [] \<or> startsWith t ''-''"
    using that general by blast
next
  show "query (search lc nameWeight descWeight describe skills raw) = parseQuery raw"
    by (simp add: search_def searchParsed_def Let_def)
next
  show "includeTerms (parseQuery raw)
       = filter (\<lambda>t. t \<noteq> [] \<and> \<not> startsWith t ''-'') (splitOn (CHR '' '') raw)"
    by (rule parse_fields)
next
  show "excludeTerms (parseQuery raw)
       = filter (\<lambda>t. t \<noteq> [])
           (map (drop 1) (filter (\<lambda>t. startsWith t ''-'') (splitOn (CHR '' '') raw)))"
    by (rule parse_fields)
next
  show "s \<in> set (matches (searchParsed lc nameWeight descWeight describe skills q)) \<longleftrightarrow>
        s \<in> set skills
        \<and> (\<forall>t \<in> set (includeTerms q).
              containsTerm lc (name s) t \<or> containsTerm lc (toolName s) t
              \<or> containsTerm lc (description s) t)
        \<and> \<not> (\<exists>t \<in> set (excludeTerms q).
              containsTerm lc (name s) t \<or> containsTerm lc (toolName s) t
              \<or> containsTerm lc (description s) t)"
    by (rule matches_iff)
next
  assume "includeTerms q = []"
  then show "set (matches (searchParsed lc nameWeight descWeight describe skills q))
          = {s \<in> set skills. \<not> isExcluded lc q s}"
    unfolding matches_set by (simp add: isMatch_def)
qed

theorem search_include_exclude_witness:
  "authSkill \<in> set (matches (search noUnicodeFold 10 1 (\<lambda>q n. ''found'')
       [oauthSkill, jwtSkill, authSkill] ''auth -oauth''))
   \<and> jwtSkill \<in> set (matches (search noUnicodeFold 10 1 (\<lambda>q n. ''found'')
       [oauthSkill, jwtSkill, authSkill] ''auth -oauth''))
   \<and> oauthSkill \<notin> set (matches (search noUnicodeFold 10 1 (\<lambda>q n. ''found'')
       [oauthSkill, jwtSkill, authSkill] ''auth -oauth''))
   \<and> splitOn (CHR '' '') ''jwt'' = [''jwt'']
   \<and> jwtSkill \<in> set (matches (search noUnicodeFold 10 1 (\<lambda>q n. ''found'')
       [oauthSkill, jwtSkill, authSkill] ''jwt''))
   \<and> authSkill \<notin> set (matches (search noUnicodeFold 10 1 (\<lambda>q n. ''found'')
       [oauthSkill, jwtSkill, authSkill] ''jwt''))
   \<and> splitOn (CHR '' '') ''-oauth'' = [''-oauth'']
   \<and> startsWith ''-oauth'' ''-''
   \<and> jwtSkill \<in> set (matches (search noUnicodeFold 10 1 (\<lambda>q n. ''found'')
       [oauthSkill, jwtSkill, authSkill] ''-oauth''))
   \<and> oauthSkill \<notin> set (matches (search noUnicodeFold 10 1 (\<lambda>q n. ''found'')
       [oauthSkill, jwtSkill, authSkill] ''-oauth''))
   \<and> includeTerms (parseQuery ''-oauth'') = []
   \<and> excludeTerms (parseQuery ''-oauth'') = [''oauth'']
   \<and> set (matches (searchParsed noUnicodeFold 10 1 (\<lambda>q n. ''found'')
       [oauthSkill, jwtSkill, authSkill] (parseQuery ''-oauth'')))
      = {s \<in> set [oauthSkill, jwtSkill, authSkill].
           \<not> isExcluded noUnicodeFold (parseQuery ''-oauth'') s}"
proof -
  let ?skills = "[oauthSkill, jwtSkill, authSkill]"
  let ?found = "\<lambda>(q :: ParsedSkillQuery) (n :: nat). ''found''"
  have a: "sublist ''auth'' (toLowerCase noUnicodeFold (name authSkill))"
    "\<not> sublist ''oauth'' (toLowerCase noUnicodeFold (name authSkill))"
    "\<not> sublist ''oauth'' (toLowerCase noUnicodeFold (toolName authSkill))"
    "\<not> sublist ''oauth'' (toLowerCase noUnicodeFold (description authSkill))"
    by code_simp+
  have j: "sublist ''auth'' (toLowerCase noUnicodeFold (description jwtSkill))"
    "\<not> sublist ''oauth'' (toLowerCase noUnicodeFold (name jwtSkill))"
    "\<not> sublist ''oauth'' (toLowerCase noUnicodeFold (toolName jwtSkill))"
    "\<not> sublist ''oauth'' (toLowerCase noUnicodeFold (description jwtSkill))"
    by code_simp+
  have o: "sublist ''oauth'' (toLowerCase noUnicodeFold (name oauthSkill))"
    by code_simp
  have jw: "containsTerm noUnicodeFold (name jwtSkill) ''jwt''"
    "\<not> containsTerm noUnicodeFold (name authSkill) ''jwt''"
    "\<not> containsTerm noUnicodeFold (toolName authSkill) ''jwt''"
    "\<not> containsTerm noUnicodeFold (description authSkill) ''jwt''"
    by code_simp+
  have ex: "containsTerm noUnicodeFold (name oauthSkill) ''oauth''"
    "\<not> containsTerm noUnicodeFold (name jwtSkill) ''oauth''"
    "\<not> containsTerm noUnicodeFold (toolName jwtSkill) ''oauth''"
    "\<not> containsTerm noUnicodeFold (description jwtSkill) ''oauth''"
    by code_simp+
  have sp: "splitOn (CHR '' '') ''jwt'' = [''jwt'']"
    "splitOn (CHR '' '') ''-oauth'' = [''-oauth'']" "startsWith ''-oauth'' ''-''"
    by (simp_all add: startsWith_def)
  have p: "includeTerms (parseQuery ''-oauth'') = []"
    "excludeTerms (parseQuery ''-oauth'') = [''oauth'']"
    by (simp_all add: parseQuery_def parseTerms_def startsWith_def Let_def)
  note t = search_include_exclude
    [where lc = noUnicodeFold and nameWeight = 10 and descWeight = 1 and describe = ?found
       and skills = ?skills and q = "parseQuery ''-oauth''"]
  note first = t [THEN conjunct1]
  have one: "authSkill \<in> set (matches (search noUnicodeFold 10 1 ?found ?skills ''auth -oauth''))"
    unfolding first using a by simp
  have two: "jwtSkill \<in> set (matches (search noUnicodeFold 10 1 ?found ?skills ''auth -oauth''))"
    unfolding first using j by simp
  have three: "oauthSkill \<notin> set (matches (search noUnicodeFold 10 1 ?found ?skills
      ''auth -oauth''))"
    unfolding first using o by simp
  have four: "jwtSkill \<in> set (matches (search noUnicodeFold 10 1 ?found ?skills ''jwt''))"
    using search_include_exclude
      [where lc = noUnicodeFold and nameWeight = 10 and descWeight = 1 and describe = ?found
         and skills = ?skills and s = jwtSkill and raw = "''jwt''",
       THEN conjunct2, THEN conjunct1]
      jw
    by (simp add: sp startsWith_def)
  have five: "authSkill \<notin> set (matches (search noUnicodeFold 10 1 ?found ?skills ''jwt''))"
    using search_include_exclude
      [where lc = noUnicodeFold and nameWeight = 10 and descWeight = 1 and describe = ?found
         and skills = ?skills and s = authSkill and raw = "''jwt''",
       THEN conjunct2, THEN conjunct1]
      jw
    by (simp add: sp startsWith_def)
  note none = search_include_exclude
    [where lc = noUnicodeFold and nameWeight = 10 and descWeight = 1 and describe = ?found
       and skills = ?skills and raw = "''-oauth''",
     THEN conjunct2, THEN conjunct2, THEN conjunct1]
  have six: "jwtSkill \<in> set (matches (search noUnicodeFold 10 1 ?found ?skills ''-oauth''))"
    using none ex by (simp add: sp startsWith_def)
  have seven: "oauthSkill \<notin> set (matches (search noUnicodeFold 10 1 ?found ?skills ''-oauth''))"
    using none ex by (simp add: sp startsWith_def)
  from t [THEN conjunct2, THEN conjunct2, THEN conjunct2, THEN conjunct2, THEN conjunct2,
          THEN conjunct2, THEN conjunct2] p(1)
  have eight: "set (matches (searchParsed noUnicodeFold 10 1 ?found ?skills
       (parseQuery ''-oauth'')))
      = {s \<in> set ?skills. \<not> isExcluded noUnicodeFold (parseQuery ''-oauth'') s}"
    by simp
  from one two three sp(1) four five sp(2,3) six seven p eight show ?thesis
    by (intro conjI)
qed

end
